theory Spec2Isabelle
  imports Main
begin

section \<open>Identities, errors and values\<close>

text \<open>
  A table identity (a UUID in the program) is an opaque key. An object of the program
  lives at an address of the store; two objects are the same object iff their
  addresses are equal.
\<close>

type_synonym uuid = nat
type_synonym ref = nat

text \<open>
  \<open>Error\<close> is \<open>excs.Error\<close> with its message. An interpolated value that is not a
  string prints as a placeholder. The other constructors are the built-in exceptions
  the modelled code can raise. \<open>NoSuchObject\<close> is reported for an address that holds no
  object; a running program has no such address.
\<close>

datatype error =
    Error string
  | AssertionError
  | KeyError
  | ValueError
  | TypeError string
  | NoSuchObject

definition py_repr :: "string \<Rightarrow> string" where
  "py_repr s = [CHR 0x27] @ s @ [CHR 0x27]"

text \<open>Python values that reach the modelled code from the caller.\<close>

datatype pyval =
    VBool bool
  | VInt int
  | VStr string
  | VOpaque string

section \<open>Column types, table versions and paths\<close>

datatype type_tag = IntType | BoolType | StringType | FloatType | JsonType | InvalidType

record ColumnType =
  tag :: type_tag
  nullable :: bool

definition is_invalid_type :: "ColumnType \<Rightarrow> bool" where
  "is_invalid_type t = (tag t = InvalidType)"

definition is_bool_type :: "ColumnType \<Rightarrow> bool" where
  "is_bool_type t = (tag t = BoolType)"

text \<open>
  Modelled from the spec: \<open>TableVersion\<close> (table_version.py lies outside the modules
  verified here). Its identity is (table id, version); \<open>is_snapshot\<close> marks a pinned version.
  The fields \<open>id\<close> and \<open>name\<close> of the program are \<open>tv_id\<close> and \<open>tv_name\<close> here.
\<close>

record TableVersion =
  tv_id :: uuid
  tv_name :: string
  version :: nat
  is_snapshot :: bool

text \<open>
  Modelled from the spec: \<open>TableVersion.create_snapshot_copy\<close>. The copy pins the
  current version of the same table: same id, same version, marked as a snapshot.
\<close>

definition create_snapshot_copy :: "TableVersion \<Rightarrow> TableVersion" where
  "create_snapshot_copy tv = tv\<lparr>is_snapshot := True\<rparr>"

text \<open>
  Modelled from the spec: \<open>TableVersionPath\<close> (table_version_path.py lies outside the
  modules verified here), the structure \<open>{tbl_version, base: Optional<TableVersionPath>}\<close>.
\<close>

datatype TableVersionPath =
  TableVersionPath (tbl_version: TableVersion) (base: "TableVersionPath option")

fun get_tbl_versions :: "TableVersionPath \<Rightarrow> TableVersion list" where
  "get_tbl_versions (TableVersionPath tv b) =
     tv # (case b of None \<Rightarrow> [] | Some p \<Rightarrow> get_tbl_versions p)"

text \<open>
  Modelled from the spec: \<open>TableVersionPath.is_snapshot()\<close> is true iff every
  TableVersion in the chain is a snapshot version.
\<close>

fun path_is_snapshot :: "TableVersionPath \<Rightarrow> bool" where
  "path_is_snapshot (TableVersionPath tv b) =
     (if \<not> is_snapshot tv then False
      else (case b of None \<Rightarrow> True | Some p \<Rightarrow> path_is_snapshot p))"

definition tbl_name :: "TableVersionPath \<Rightarrow> string" where
  "tbl_name p = tv_name (tbl_version p)"

definition tbl_id :: "TableVersionPath \<Rightarrow> uuid" where
  "tbl_id p = tv_id (tbl_version p)"

text \<open>Lookup of an ancestor by table id, the path's own version first.\<close>

fun find_tbl_version :: "TableVersionPath \<Rightarrow> uuid \<Rightarrow> TableVersion option" where
  "find_tbl_version (TableVersionPath tv b) i =
     (if tv_id tv = i then Some tv
      else (case b of None \<Rightarrow> None | Some p \<Rightarrow> find_tbl_version p i))"

section \<open>View._get_snapshot_path\<close>

text \<open>
  The source:
  \<^verbatim>\<open>
  if tbl_version_path.is_snapshot():
      return tbl_version_path
  tbl_version = tbl_version_path.tbl_version
  if not tbl_version.is_snapshot:
      tbl_version = tbl_version.create_snapshot_copy()
      assert tbl_version.is_snapshot
  return TableVersionPath(
      tbl_version,
      base=cls._get_snapshot_path(tbl_version_path.base)
           if tbl_version_path.base is not None else None)
  \<close>
  The leading underscore of the method name is dropped.
\<close>

fun get_snapshot_path :: "TableVersionPath \<Rightarrow> error + TableVersionPath" where
  "get_snapshot_path (TableVersionPath tv b) =
     (if path_is_snapshot (TableVersionPath tv b) then Inr (TableVersionPath tv b)
      else
        (case (if \<not> is_snapshot tv
               then (let tv' = create_snapshot_copy tv
                     in if is_snapshot tv' then Inr tv' else Inl AssertionError)
               else Inr tv) of
           Inl e \<Rightarrow> Inl e
         | Inr tv' \<Rightarrow>
             (case b of
                None \<Rightarrow> Inr (TableVersionPath tv' None)
              | Some p \<Rightarrow>
                  (case get_snapshot_path p of
                     Inl e \<Rightarrow> Inl e
                   | Inr p' \<Rightarrow> Inr (TableVersionPath tv' (Some p'))))))"

text \<open>What the claim says each version of the chain becomes.\<close>

definition pinned :: "TableVersion \<Rightarrow> TableVersion" where
  "pinned tv = (if is_snapshot tv then tv else create_snapshot_copy tv)"

section \<open>Expressions\<close>

text \<open>
  Modelled from the spec: the expression trees of computed columns, predicates and
  queries (the package \<open>exprs\<close> lies outside the modules verified here). A column reference
  names the table version that owns the column, the column and its type; a variable
  has a name and a declared type; \<open>FunctionCall\<close> stands for every operator or
  function application, with its result type and its components.
\<close>

datatype Expr =
    ColumnRef TableVersion string ColumnType
  | Literal pyval
  | Variable string ColumnType
  | InlineList "Expr list"
  | InlineDict "string list" "Expr list"
  | FunctionCall string ColumnType "Expr list"

text \<open>
  Modelled from the spec: a null version in a view's base-version list means that the
  live version of the base is tracked; a snapshot version is pinned at its version
  number. The effective version of a table version is its version number when it is
  a snapshot version, and null when it is the live one.
\<close>

definition effective_version :: "TableVersion \<Rightarrow> nat option" where
  "effective_version tv = (if is_snapshot tv then Some (version tv) else None)"

text \<open>
  A table version occurs in a path when one of the path's versions has its table id
  and its effective version: a reference to the live table does not resolve within a
  path that holds a snapshot of that table, nor the other way round.
\<close>

fun has_tbl_version :: "TableVersionPath \<Rightarrow> TableVersion \<Rightarrow> bool" where
  "has_tbl_version (TableVersionPath tv' b) tv =
     (if tv_id tv = tv_id tv' \<and> effective_version tv = effective_version tv' then True
      else (case b of None \<Rightarrow> False | Some p \<Rightarrow> has_tbl_version p tv))"

text \<open>
  Modelled from the spec: an expression is boundable by a path iff every column
  reference it contains resolves within that path, that is, the table version that
  owns the referenced column occurs in the path.
\<close>

fun is_bound_by :: "Expr \<Rightarrow> TableVersionPath \<Rightarrow> bool" where
  "is_bound_by (ColumnRef tv c t) p = has_tbl_version p tv"
| "is_bound_by (Literal v) p = True"
| "is_bound_by (Variable n t) p = True"
| "is_bound_by (InlineList es) p = list_all (\<lambda>e. is_bound_by e p) es"
| "is_bound_by (InlineDict ks es) p = list_all (\<lambda>e. is_bound_by e p) es"
| "is_bound_by (FunctionCall f t es) p = list_all (\<lambda>e. is_bound_by e p) es"

text \<open>
  Modelled from the spec: retargeting rewrites the tree and rebinds each column
  reference to the version of its table in the given path; a reference to a table
  outside the path is left as it is.
\<close>

fun retarget :: "TableVersionPath \<Rightarrow> Expr \<Rightarrow> Expr" where
  "retarget p (ColumnRef tv c t) =
     (case find_tbl_version p (tv_id tv) of
        Some tv' \<Rightarrow> ColumnRef tv' c t
      | None \<Rightarrow> ColumnRef tv c t)"
| "retarget p (Literal v) = Literal v"
| "retarget p (Variable n t) = Variable n t"
| "retarget p (InlineList es) = InlineList (map (retarget p) es)"
| "retarget p (InlineDict ks es) = InlineDict ks (map (retarget p) es)"
| "retarget p (FunctionCall f t es) = FunctionCall f t (map (retarget p) es)"

section \<open>Columns, iterators, views and the catalog\<close>

text \<open>
  Modelled from the spec: \<open>Column\<close> (column.py lies outside the modules verified here):
  name, type with its nullability, stored flag, computed flag, optional derivation
  expression. \<open>Column_init n t s\<close> is the constructor call \<open>Column(n, t, stored=s)\<close>.
\<close>

record Column =
  name :: string
  col_type :: ColumnType
  stored :: bool
  is_computed :: bool
  value_expr :: "Expr option"

definition Column_init :: "string \<Rightarrow> ColumnType \<Rightarrow> bool \<Rightarrow> Column" where
  "Column_init n t s =
     \<lparr>name = n, col_type = t, stored = s, is_computed = False, value_expr = None\<rparr>"

definition set_value_expr :: "Column \<Rightarrow> Expr \<Rightarrow> Column" where
  "set_value_expr col e = col\<lparr>value_expr := Some e\<rparr>"

text \<open>
  Modelled from the spec: the name of the position column (\<open>_POS_COLUMN_NAME\<close> of
  globals.py, which lies outside the modules verified here).
\<close>

definition POS_COLUMN_NAME :: string where
  "POS_COLUMN_NAME = ''pos''"

text \<open>
  A row-generating iterator class, as \<open>View._create\<close> uses it: its module and name,
  the outcome of binding the supplied arguments to its constructor's signature and of
  type-checking them against its input schema (\<open>None\<close> when both pass, the exception
  otherwise), and its output schema: the ordered output fields with their types and
  the names the iterator marks unstored. The supplied arguments are a dictionary from
  names to expressions, in insertion order.
\<close>

type_synonym iterator_args = "(string \<times> Expr) list"

record ComponentIterator =
  it_module :: string
  it_name :: string
  bind_and_check :: "iterator_args \<Rightarrow> error option"
  output_schema :: "iterator_args \<Rightarrow> (string \<times> ColumnType) list \<times> string list"

text \<open>The metadata persisted per view.\<close>

record ViewMd =
  md_is_snapshot :: bool
  md_predicate :: "Expr option"
  md_base_versions :: "(uuid \<times> nat option) list"
  md_iterator_class_fqn :: "string option"
  md_iterator_args :: "Expr option"

text \<open>
  A view object. The fields \<open>_id\<close>, \<open>_dir_id\<close>, \<open>_name\<close>, \<open>_tbl_version_path\<close>,
  \<open>_base_id\<close>, \<open>_snapshot_only\<close> and \<open>_is_dropped\<close> of the program carry the
  prefix \<open>v_\<close> here. \<open>v_is_dropped_attr\<close> is the attribute \<open>is_dropped\<close> (without
  underscore) that \<open>View._drop\<close> assigns; it is absent until then.
\<close>

record View =
  v_id :: uuid
  v_dir_id :: uuid
  v_name :: string
  v_tbl_version_path :: TableVersionPath
  v_base_id :: uuid
  v_snapshot_only :: bool
  v_is_dropped :: bool
  v_is_dropped_attr :: "bool option"

text \<open>
  The catalog singleton: \<open>tbls\<close> maps an id to the object registered under it,
  \<open>tbl_dependents\<close> maps an id to the list of view objects that declare it as their
  direct base. Objects are held by address.
\<close>

record Catalog =
  tbls :: "uuid \<rightharpoonup> ref"
  tbl_dependents :: "uuid \<rightharpoonup> ref list"

text \<open>
  The state the modelled operations act on: the view objects by address, the next
  free address, the catalog, and the backing store: the persisted metadata (with the
  column list) per table id, and the ids that have a physical store table.
\<close>

record World =
  heap :: "ref \<rightharpoonup> View"
  next_ref :: ref
  cat :: Catalog
  md_store :: "uuid \<rightharpoonup> ViewMd \<times> Column list"
  store_tbls :: "uuid set"

type_synonym 'a result = "(error + 'a) \<times> World"

section \<open>View.insert and View.delete\<close>

text \<open>
  \<^verbatim>\<open>
  def insert(self, rows=None, /, *, print_stats=False, on_error='abort', **kwargs):
      raise excs.Error(f'{self._display_name()} {self._name!r}: cannot insert into view')
  def delete(self, where=None):
      raise excs.Error(f'{self._display_name()} {self._name!r}: cannot delete from view')
  \<close>
  \<open>UpdateStatus\<close> is the declared result type; neither method returns one.
\<close>

record UpdateStatus =
  num_rows :: nat
  num_excs :: nat

datatype on_error = Abort | Ignore

definition display_name :: string where
  "display_name = ''view''"

definition View_insert ::
  "View \<Rightarrow> (string \<times> pyval) list list option \<Rightarrow> bool \<Rightarrow> on_error \<Rightarrow>
   (string \<times> pyval) list \<Rightarrow> World \<Rightarrow> UpdateStatus result" where
  "View_insert self rows print_stats on_err kwargs w =
     (Inl (Error (display_name @ '' '' @ py_repr (v_name self) @
                  '': cannot insert into view'')), w)"

definition View_delete :: "View \<Rightarrow> Expr option \<Rightarrow> World \<Rightarrow> UpdateStatus result" where
  "View_delete self where_arg w =
     (Inl (Error (display_name @ '' '' @ py_repr (v_name self) @
                  '': cannot delete from view'')), w)"

section \<open>View._verify_column and the validation steps of View._create\<close>

text \<open>
  \<^verbatim>\<open>
  def _verify_column(cls, col, existing_column_names, existing_query_names=None):
      if not col.col_type.nullable and not col.is_computed:
          raise excs.Error(f'Column {col.name}: non-computed columns in views must be nullable')
      super()._verify_column(col, existing_column_names, existing_query_names)
  \<close>
  \<open>Table._verify_column\<close> (the \<open>super()\<close> call) lies outside the modules verified here; it is
  the parameter \<open>super_verify\<close>, which returns the exception it raises, if any.
\<close>

type_synonym super_verify = "Column \<Rightarrow> string set \<Rightarrow> error option"

definition verify_column :: "super_verify \<Rightarrow> Column \<Rightarrow> string set \<Rightarrow> error + unit" where
  "verify_column sv col existing_column_names =
     (if \<not> nullable (col_type col) \<and> \<not> is_computed col
      then Inl (Error (''Column '' @ name col @
                       '': non-computed columns in views must be nullable''))
      else (case sv col existing_column_names of
              Some e \<Rightarrow> Inl e
            | None \<Rightarrow> Inr ()))"

text \<open>
  Modelled from the spec: \<open>Table._verify_schema\<close> validates every additional column:
  it calls \<open>_verify_column\<close> on each column in order, with the names of the columns
  before it.
\<close>

fun verify_schema :: "super_verify \<Rightarrow> Column list \<Rightarrow> string set \<Rightarrow> error + unit" where
  "verify_schema sv [] names = Inr ()"
| "verify_schema sv (col # cols) names =
     (case verify_column sv col names of
        Inl e \<Rightarrow> Inl e
      | Inr _ \<Rightarrow> verify_schema sv cols (insert (name col) names))"

text \<open>
  \<^verbatim>\<open>
  if predicate is not None:
      if not predicate.is_bound_by(base):
          raise excs.Error(f'Filter cannot be computed in the context of the base {base.tbl_name()}')
      predicate = predicate.copy()
  \<close>
  A copy of an expression is the same value.
\<close>

definition check_predicate :: "Expr option \<Rightarrow> TableVersionPath \<Rightarrow> error + Expr option" where
  "check_predicate predicate base_path =
     (case predicate of
        None \<Rightarrow> Inr None
      | Some e \<Rightarrow>
          if \<not> is_bound_by e base_path
          then Inl (Error (''Filter cannot be computed in the context of the base '' @
                           tbl_name base_path))
          else Inr (Some e))"

text \<open>
  \<^verbatim>\<open>
  for col in columns:
      if not col.is_computed:
          continue
      if col.value_expr is not None and not col.value_expr.is_bound_by(base):
          raise excs.Error(f'Column {col.name}: value expression cannot be computed ...')
  \<close>
\<close>

fun check_value_exprs :: "Column list \<Rightarrow> TableVersionPath \<Rightarrow> error + unit" where
  "check_value_exprs [] base_path = Inr ()"
| "check_value_exprs (col # cols) base_path =
     (if \<not> is_computed col then check_value_exprs cols base_path
      else (case value_expr col of
              Some e \<Rightarrow>
                if \<not> is_bound_by e base_path
                then Inl (Error (''Column '' @ name col @
                       '': value expression cannot be computed in the context of the base '' @
                       tbl_name base_path))
                else check_value_exprs cols base_path
            | None \<Rightarrow> check_value_exprs cols base_path))"

section \<open>The iterator columns of View._create\<close>

text \<open>
  \<^verbatim>\<open>
  if iterator_cls is not None:
      assert iterator_args is not None
      ... bind and type-check iterator_args; a TypeError becomes
          excs.Error(f'Cannot instantiate iterator with given arguments: {e}')
      iterator_cols = [Column(_POS_COLUMN_NAME, ts.IntType(), stored=False)]
      output_dict, unstored_cols = iterator_cls.output_schema(**bound_args)
      iterator_cols.extend([
          Column(col_name, col_type, stored=col_name not in unstored_cols)
          for col_name, col_type in output_dict.items()])
      iterator_col_names = {col.name for col in iterator_cols}
      for col in columns:
          if col.name in iterator_col_names:
              raise excs.Error(f'Duplicate name: column {col.name} is already present ...')
      columns = iterator_cols + columns
  \<close>
\<close>

definition iterator_cols :: "ComponentIterator \<Rightarrow> iterator_args \<Rightarrow> Column list" where
  "iterator_cols it args =
     (let (output_dict, unstored_cols) = output_schema it args
      in Column_init POS_COLUMN_NAME \<lparr>tag = IntType, nullable = False\<rparr> False #
         map (\<lambda>(col_name, col_type). Column_init col_name col_type (col_name \<notin> set unstored_cols))
             output_dict)"

fun check_duplicates :: "Column list \<Rightarrow> string set \<Rightarrow> error + unit" where
  "check_duplicates [] iterator_col_names = Inr ()"
| "check_duplicates (col # cols) iterator_col_names =
     (if name col \<in> iterator_col_names
      then Inl (Error (''Duplicate name: column '' @ name col @
                       '' is already present in the iterator output schema''))
      else check_duplicates cols iterator_col_names)"

definition add_iterator_columns ::
  "ComponentIterator option \<Rightarrow> iterator_args option \<Rightarrow> Column list \<Rightarrow> error + Column list" where
  "add_iterator_columns iterator_cls iterator_args columns =
     (case iterator_cls of
        None \<Rightarrow> Inr columns
      | Some it \<Rightarrow>
          (case iterator_args of
             None \<Rightarrow> Inl AssertionError
           | Some args \<Rightarrow>
               (case bind_and_check it args of
                  Some (TypeError m) \<Rightarrow>
                    Inl (Error (''Cannot instantiate iterator with given arguments: '' @ m))
                | Some e \<Rightarrow> Inl e
                | None \<Rightarrow>
                    (let icols = iterator_cols it args
                     in case check_duplicates columns (set (map name icols)) of
                          Inl e \<Rightarrow> Inl e
                        | Inr _ \<Rightarrow> Inr (icols @ columns)))))"

section \<open>The persisting part of View._create\<close>

text \<open>
  \<^verbatim>\<open>
  base_versions = [
      (tbl_version.id.hex, tbl_version.version if is_snapshot or tbl_version.is_snapshot else None)
      for tbl_version in base_version_path.get_tbl_versions()]
  \<close>
\<close>

definition base_versions :: "bool \<Rightarrow> TableVersionPath \<Rightarrow> (uuid \<times> nat option) list" where
  "base_versions is_snap base_version_path =
     map (\<lambda>tv. (tv_id tv, if is_snap \<or> is_snapshot tv then Some (version tv) else None))
         (get_tbl_versions base_version_path)"

text \<open>
  \<^verbatim>\<open>
  for col in columns:
      if col.value_expr is not None:
          col.set_value_expr(col.value_expr.retarget(base_version_path))
  \<close>
\<close>

definition retarget_columns :: "TableVersionPath \<Rightarrow> Column list \<Rightarrow> Column list" where
  "retarget_columns base_version_path columns =
     map (\<lambda>col. case value_expr col of
                  Some e \<Rightarrow> set_value_expr col (retarget base_version_path e)
                | None \<Rightarrow> col) columns"

text \<open>
  Modelled from the spec: \<open>TableVersion.create\<close> (table_version.py lies outside the
  modules verified here) returns the new id and a new TableVersion, unless this is a pure
  snapshot with no predicate, no columns and no iterator, which needs no physical
  TableVersion. The new id is drawn by the callee; here it is the argument \<open>new_id\<close>.
  What it persists is written to the store when the session commits.
\<close>

definition pure_snapshot :: "Column list \<Rightarrow> ViewMd \<Rightarrow> bool" where
  "pure_snapshot columns view_md =
     (md_is_snapshot view_md \<and> md_predicate view_md = None \<and> columns = [] \<and>
      md_iterator_class_fqn view_md = None)"

definition TableVersion_create ::
  "uuid \<Rightarrow> string \<Rightarrow> Column list \<Rightarrow> ViewMd \<Rightarrow> uuid \<times> TableVersion option" where
  "TableVersion_create new_id nm columns view_md =
     (new_id,
      if pure_snapshot columns view_md then None
      else Some \<lparr>tv_id = new_id, tv_name = nm, version = 0,
                 is_snapshot = md_is_snapshot view_md\<rparr>)"

text \<open>
  \<^verbatim>\<open>
  def __init__(self, id, dir_id, name, tbl_version_path, base_id, snapshot_only):
      super().__init__(id, dir_id, name, tbl_version_path)
      assert base_id in catalog.Catalog.get().tbl_dependents
      self._base_id = base_id
      self._snapshot_only = snapshot_only
  \<close>
  A new object is not dropped.
\<close>

definition View_init ::
  "uuid \<Rightarrow> uuid \<Rightarrow> string \<Rightarrow> TableVersionPath \<Rightarrow> uuid \<Rightarrow> bool \<Rightarrow> World \<Rightarrow> error + View" where
  "View_init i dir_id nm path base_id snapshot_only w =
     (if tbl_dependents (cat w) base_id = None then Inl AssertionError
      else Inr \<lparr>v_id = i, v_dir_id = dir_id, v_name = nm, v_tbl_version_path = path,
                v_base_id = base_id, v_snapshot_only = snapshot_only,
                v_is_dropped = False, v_is_dropped_attr = None\<rparr>)"

text \<open>
  \<^verbatim>\<open>
  session.commit()
  cat = Catalog.get()
  cat.tbl_dependents[view._id] = []
  cat.tbl_dependents[base.tbl_id()].append(view)
  cat.tbls[view._id] = view
  return view
  \<close>
  The view object gets the next free address. The commit writes the metadata and the
  columns, and the physical store table when there is one.
\<close>

definition commit_and_register ::
  "View \<Rightarrow> ViewMd \<Rightarrow> Column list \<Rightarrow> bool \<Rightarrow> uuid \<Rightarrow> World \<Rightarrow> ref result" where
  "commit_and_register view view_md columns physical base_tbl_id w =
     (let r = next_ref w;
          w1 = w\<lparr>heap := (heap w)(r \<mapsto> view),
                 next_ref := Suc r,
                 md_store := (md_store w)(v_id view \<mapsto> (view_md, columns)),
                 store_tbls := (if physical then insert (v_id view) (store_tbls w)
                                else store_tbls w)\<rparr>;
          deps1 = (tbl_dependents (cat w1))(v_id view \<mapsto> [])
      in case deps1 base_tbl_id of
           None \<Rightarrow> (Inl KeyError, w1\<lparr>cat := (cat w1)\<lparr>tbl_dependents := deps1\<rparr>\<rparr>)
         | Some l \<Rightarrow>
             (Inr r, w1\<lparr>cat := \<lparr>tbls = (tbls (cat w1))(v_id view \<mapsto> r),
                                 tbl_dependents = deps1(base_tbl_id \<mapsto> l @ [r])\<rparr>\<rparr>))"

text \<open>
  The body of the \<open>with orm.Session(...)\<close> block. \<open>load_exc\<close> is the exception, if
  any, that building and running the population plan raises; nothing is committed
  then, nor when any earlier step raises.
\<close>

definition create_in_session ::
  "uuid \<Rightarrow> error option \<Rightarrow> uuid \<Rightarrow> string \<Rightarrow> TableVersionPath \<Rightarrow> Column list \<Rightarrow> Expr option \<Rightarrow>
   bool \<Rightarrow> ComponentIterator option \<Rightarrow> iterator_args option \<Rightarrow> World \<Rightarrow> ref result" where
  "create_in_session new_id load_exc dir_id nm base_path columns predicate is_snap
       iterator_cls iterator_args w =
     (let iterator_args_expr =
            map_option (\<lambda>args. InlineDict (map fst args) (map snd args)) iterator_args;
          iterator_class_fqn =
            map_option (\<lambda>it. it_module it @ ''.'' @ it_name it) iterator_cls
      in case (if is_snap then get_snapshot_path base_path else Inr base_path) of
           Inl e \<Rightarrow> (Inl e, w)
         | Inr base_version_path \<Rightarrow>
             (let predicate' = (if is_snap then map_option (retarget base_version_path) predicate
                                else predicate);
                  iterator_args_expr' =
                    (if is_snap then map_option (retarget base_version_path) iterator_args_expr
                     else iterator_args_expr);
                  columns' = (if is_snap then retarget_columns base_version_path columns
                              else columns);
                  view_md = \<lparr>md_is_snapshot = is_snap, md_predicate = predicate',
                             md_base_versions = base_versions is_snap base_version_path,
                             md_iterator_class_fqn = iterator_class_fqn,
                             md_iterator_args = iterator_args_expr'\<rparr>;
                  (i, tbl_version) = TableVersion_create new_id nm columns' view_md
              in case tbl_version of
                   None \<Rightarrow>
                     (case View_init i dir_id nm base_version_path (tbl_id base_path) True w of
                        Inl e \<Rightarrow> (Inl e, w)
                      | Inr view \<Rightarrow>
                          commit_and_register view view_md columns' False (tbl_id base_path) w)
                 | Some tv \<Rightarrow>
                     (case View_init i dir_id nm (TableVersionPath tv (Some base_version_path))
                             (tbl_id base_path) False w of
                        Inl e \<Rightarrow> (Inl e, w)
                      | Inr view \<Rightarrow>
                          (case load_exc of
                             Some e \<Rightarrow> (Inl e, w)
                           | None \<Rightarrow>
                               commit_and_register view view_md columns' True
                                 (tbl_id base_path) w))))"

text \<open>
  \<open>View._create\<close>. \<open>columns\<close> is the list \<open>cls._create_columns(additional_columns)\<close>
  (\<open>Table._create_columns\<close> lies outside the modules verified here). The arguments
  \<open>num_retained_versions\<close>, \<open>comment\<close> and \<open>media_validation\<close> are only handed to
  \<open>TableVersion.create\<close>. \<open>sv\<close>, \<open>new_id\<close> and \<open>load_exc\<close> stand for the code outside
  \<open>view.py\<close>, as described above.
\<close>

datatype MediaValidation = ON_READ | ON_WRITE

definition View_create ::
  "super_verify \<Rightarrow> uuid \<Rightarrow> error option \<Rightarrow>
   uuid \<Rightarrow> string \<Rightarrow> TableVersionPath \<Rightarrow> Column list \<Rightarrow> Expr option \<Rightarrow> bool \<Rightarrow> nat \<Rightarrow> string \<Rightarrow>
   MediaValidation \<Rightarrow> ComponentIterator option \<Rightarrow> iterator_args option \<Rightarrow> World \<Rightarrow> ref result" where
  "View_create sv new_id load_exc dir_id nm base_path columns predicate is_snap
       num_retained_versions comment media_validation iterator_cls iterator_args w =
     (case verify_schema sv columns {} of
        Inl e \<Rightarrow> (Inl e, w)
      | Inr _ \<Rightarrow>
     (case check_predicate predicate base_path of
        Inl e \<Rightarrow> (Inl e, w)
      | Inr predicate' \<Rightarrow>
     (case check_value_exprs columns base_path of
        Inl e \<Rightarrow> (Inl e, w)
      | Inr _ \<Rightarrow>
     (case add_iterator_columns iterator_cls iterator_args columns of
        Inl e \<Rightarrow> (Inl e, w)
      | Inr columns' \<Rightarrow>
          create_in_session new_id load_exc dir_id nm base_path columns' predicate' is_snap
            iterator_cls iterator_args w))))"

section \<open>View._drop\<close>

text \<open>
  \<^verbatim>\<open>
  def _drop(self) -> None:
      cat = catalog.Catalog.get()
      for dep in cat.tbl_dependents[self._id]:
          assert dep._is_dropped == True
      if self._snapshot_only:
          self._check_is_dropped()
          self.is_dropped = True
          with Env.get().engine.begin() as conn:
              TableVersion.delete_md(self._id, conn)
          cat = catalog.Catalog.get()
          del cat.tbls[self._id]
      else:
          super()._drop()
      cat.tbl_dependents[self._base_id].remove(self)
      del cat.tbl_dependents[self._id]
  \<close>
  An exception leaves the state as it is when it is raised.
\<close>

definition dep_is_dropped :: "World \<Rightarrow> ref \<Rightarrow> bool" where
  "dep_is_dropped w dep = (case heap w dep of Some v \<Rightarrow> v_is_dropped v | None \<Rightarrow> False)"

text \<open>
  \<open>_check_is_dropped\<close> lies outside the modules verified here; by its name and its use it
  raises for an object that is already marked dropped.
\<close>

definition check_is_dropped :: "View \<Rightarrow> error + unit" where
  "check_is_dropped v =
     (if v_is_dropped v then Inl (Error (display_name @ '' '' @ v_name v @ '' has been dropped''))
      else Inr ())"

text \<open>
  Modelled from the spec: the generic Table drop (table.py lies outside the modules verified
  here). It makes the same check of the dependents, refuses an object that is already
  dropped, drops the physical TableVersion together with its metadata, marks the
  object dropped and removes it from \<open>tbls\<close>.
\<close>

definition Table_drop :: "ref \<Rightarrow> World \<Rightarrow> unit result" where
  "Table_drop self w =
     (case heap w self of
        None \<Rightarrow> (Inl NoSuchObject, w)
      | Some v \<Rightarrow>
     (case tbl_dependents (cat w) (v_id v) of
        None \<Rightarrow> (Inl KeyError, w)
      | Some deps \<Rightarrow>
          if \<not> list_all (dep_is_dropped w) deps then (Inl AssertionError, w)
          else
     (case check_is_dropped v of
        Inl e \<Rightarrow> (Inl e, w)
      | Inr _ \<Rightarrow>
          (let w1 = w\<lparr>heap := (heap w)(self \<mapsto> v\<lparr>v_is_dropped := True\<rparr>),
                      md_store := (md_store w)(v_id v := None),
                      store_tbls := store_tbls w - {v_id v}\<rparr>
           in case tbls (cat w1) (v_id v) of
                None \<Rightarrow> (Inl KeyError, w1)
              | Some _ \<Rightarrow>
                  (Inr (), w1\<lparr>cat := (cat w1)\<lparr>tbls := (tbls (cat w1))(v_id v := None)\<rparr>\<rparr>)))))"

definition drop_snapshot_only :: "ref \<Rightarrow> View \<Rightarrow> World \<Rightarrow> unit result" where
  "drop_snapshot_only self v w =
     (case check_is_dropped v of
        Inl e \<Rightarrow> (Inl e, w)
      | Inr _ \<Rightarrow>
          (let w1 = w\<lparr>heap := (heap w)(self \<mapsto> v\<lparr>v_is_dropped_attr := Some True\<rparr>),
                      md_store := (md_store w)(v_id v := None)\<rparr>
           in case tbls (cat w1) (v_id v) of
                None \<Rightarrow> (Inl KeyError, w1)
              | Some _ \<Rightarrow>
                  (Inr (), w1\<lparr>cat := (cat w1)\<lparr>tbls := (tbls (cat w1))(v_id v := None)\<rparr>\<rparr>)))"

definition unlink_from_base :: "ref \<Rightarrow> View \<Rightarrow> World \<Rightarrow> unit result" where
  "unlink_from_base self v w =
     (case tbl_dependents (cat w) (v_base_id v) of
        None \<Rightarrow> (Inl KeyError, w)
      | Some l \<Rightarrow>
          if self \<notin> set l then (Inl ValueError, w)
          else
            (let w1 = w\<lparr>cat := (cat w)\<lparr>tbl_dependents :=
                          (tbl_dependents (cat w))(v_base_id v \<mapsto> remove1 self l)\<rparr>\<rparr>
             in case tbl_dependents (cat w1) (v_id v) of
                  None \<Rightarrow> (Inl KeyError, w1)
                | Some _ \<Rightarrow>
                    (Inr (), w1\<lparr>cat := (cat w1)\<lparr>tbl_dependents :=
                                  (tbl_dependents (cat w1))(v_id v := None)\<rparr>\<rparr>)))"

definition View_drop :: "ref \<Rightarrow> World \<Rightarrow> unit result" where
  "View_drop self w =
     (case heap w self of
        None \<Rightarrow> (Inl NoSuchObject, w)
      | Some v \<Rightarrow>
     (case tbl_dependents (cat w) (v_id v) of
        None \<Rightarrow> (Inl KeyError, w)
      | Some deps \<Rightarrow>
          if \<not> list_all (dep_is_dropped w) deps then (Inl AssertionError, w)
          else
            (case (if v_snapshot_only v then drop_snapshot_only self v w
                   else Table_drop self w) of
               (Inl e, w1) \<Rightarrow> (Inl e, w1)
             | (Inr _, w1) \<Rightarrow> unlink_from_base self v w1)))"

section \<open>Example values\<close>

text \<open>
  A base table \<open>t\<close> with id 1, pinned at version 5, and a live view version \<open>v\<close>
  with id 3 on top of it; a catalog that holds the base table (its object at address
  0) with no dependents yet.
\<close>

definition live_tv :: TableVersion where
  "live_tv = \<lparr>tv_id = 3, tv_name = ''v'', version = 2, is_snapshot = False\<rparr>"

definition snap_tv :: TableVersion where
  "snap_tv = \<lparr>tv_id = 1, tv_name = ''t'', version = 5, is_snapshot = True\<rparr>"

definition base_tv :: TableVersion where
  "base_tv = \<lparr>tv_id = 1, tv_name = ''t'', version = 5, is_snapshot = False\<rparr>"

definition w0 :: World where
  "w0 = \<lparr>heap = Map.empty, next_ref = 1,
          cat = \<lparr>tbls = [1 \<mapsto> 0], tbl_dependents = [1 \<mapsto> []]\<rparr>,
          md_store = Map.empty, store_tbls = {1}\<rparr>"

definition no_super_check :: super_verify where
  "no_super_check col names = None"

definition int_col :: "string \<Rightarrow> bool \<Rightarrow> Column" where
  "int_col n nl = Column_init n \<lparr>tag = IntType, nullable = nl\<rparr> True"

text \<open>The metadata \<open>View._create\<close> persists, given the base version path it computed.\<close>

definition session_md ::
  "bool \<Rightarrow> TableVersionPath \<Rightarrow> Expr option \<Rightarrow> ComponentIterator option \<Rightarrow>
   iterator_args option \<Rightarrow> ViewMd" where
  "session_md is_snap bvp p' iterator_cls iterator_args =
     \<lparr>md_is_snapshot = is_snap,
      md_predicate = (if is_snap then map_option (retarget bvp) p' else p'),
      md_base_versions = base_versions is_snap bvp,
      md_iterator_class_fqn =
        map_option (\<lambda>it. it_module it @ ''.'' @ it_name it) iterator_cls,
      md_iterator_args =
        (if is_snap
         then map_option (retarget bvp)
                (map_option (\<lambda>args. InlineDict (map fst args) (map snd args)) iterator_args)
         else map_option (\<lambda>args. InlineDict (map fst args) (map snd args)) iterator_args)\<rparr>"

text \<open>A view with one nullable column, created over the base table \<open>t\<close> in \<open>w0\<close>.\<close>

definition created_view :: "ref result" where
  "created_view =
     View_create no_super_check 7 None 0 ''v'' (TableVersionPath base_tv None)
       [int_col ''c1'' True] None False 1 '''' ON_READ None None w0"

text \<open>
  An iterator with the output fields \<open>frame_idx\<close> (stored) and \<open>frame\<close> (unstored),
  which accepts exactly one argument, \<open>video\<close>.
\<close>

definition frame_iterator :: ComponentIterator where
  "frame_iterator =
     \<lparr>it_module = ''iterators'', it_name = ''FrameIterator'',
      bind_and_check = (\<lambda>args. if map fst args = [''video''] then None
                               else Some (TypeError ''missing a required argument'')),
      output_schema = (\<lambda>args. ([(''frame_idx'', \<lparr>tag = IntType, nullable = False\<rparr>),
                                  (''frame'', \<lparr>tag = JsonType, nullable = False\<rparr>)],
                                 [''frame'']))\<rparr>"

definition video_args :: iterator_args where
  "video_args = [(''video'', ColumnRef base_tv ''video'' \<lparr>tag = StringType, nullable = True\<rparr>)]"

text \<open>
  A snapshot-only view \<open>s\<close> (id 7, object at address 1) of the base table \<open>t\<close>, in a
  catalog where it has no dependents (\<open>w_snap\<close>) and in one where a live view (id 9,
  object at address 2) depends on it (\<open>w_dep\<close>).
\<close>

definition snapshot_view :: View where
  "snapshot_view =
     \<lparr>v_id = 7, v_dir_id = 0, v_name = ''s'',
      v_tbl_version_path = TableVersionPath snap_tv None,
      v_base_id = 1, v_snapshot_only = True, v_is_dropped = False,
      v_is_dropped_attr = None\<rparr>"

definition child_view :: View where
  "child_view =
     \<lparr>v_id = 9, v_dir_id = 0, v_name = ''c'',
      v_tbl_version_path =
        TableVersionPath \<lparr>tv_id = 9, tv_name = ''c'', version = 0, is_snapshot = False\<rparr>
          (Some (TableVersionPath snap_tv None)),
      v_base_id = 7, v_snapshot_only = False, v_is_dropped = False,
      v_is_dropped_attr = None\<rparr>"

definition snapshot_md :: ViewMd where
  "snapshot_md = session_md True (TableVersionPath snap_tv None) None None None"

definition w_snap :: World where
  "w_snap = \<lparr>heap = [1 \<mapsto> snapshot_view], next_ref = 2,
             cat = \<lparr>tbls = [1 \<mapsto> 0, 7 \<mapsto> 1], tbl_dependents = [1 \<mapsto> [1], 7 \<mapsto> []]\<rparr>,
             md_store = [7 \<mapsto> (snapshot_md, [])], store_tbls = {1}\<rparr>"

definition w_dep :: World where
  "w_dep = \<lparr>heap = [1 \<mapsto> snapshot_view, 2 \<mapsto> child_view], next_ref = 3,
            cat = \<lparr>tbls = [1 \<mapsto> 0, 7 \<mapsto> 1, 9 \<mapsto> 2],
                   tbl_dependents = [1 \<mapsto> [1], 7 \<mapsto> [2], 9 \<mapsto> []]\<rparr>,
            md_store = [7 \<mapsto> (snapshot_md, [])], store_tbls = {1, 9}\<rparr>"

section \<open>Expressions in queries\<close>

text \<open>
  Modelled from the spec: what \<open>DataFrame\<close> reads from an expression (the package
  \<open>exprs\<close> lies outside the modules verified here): its type, its default column name (a
  column reference is named after its column; other expressions have none), and the
  wrapping of raw arguments as literal expressions. A value the program cannot type
  (\<open>VOpaque\<close>) gives a literal of invalid type.
\<close>

definition infer_literal_type :: "pyval \<Rightarrow> ColumnType" where
  "infer_literal_type v =
     (case v of
        VBool b \<Rightarrow> \<lparr>tag = BoolType, nullable = False\<rparr>
      | VInt i \<Rightarrow> \<lparr>tag = IntType, nullable = False\<rparr>
      | VStr s \<Rightarrow> \<lparr>tag = StringType, nullable = False\<rparr>
      | VOpaque s \<Rightarrow> \<lparr>tag = InvalidType, nullable = False\<rparr>)"

fun expr_col_type :: "Expr \<Rightarrow> ColumnType" where
  "expr_col_type (ColumnRef tv c t) = t"
| "expr_col_type (Literal v) = infer_literal_type v"
| "expr_col_type (Variable n t) = t"
| "expr_col_type (InlineList es) = \<lparr>tag = JsonType, nullable = False\<rparr>"
| "expr_col_type (InlineDict ks es) = \<lparr>tag = JsonType, nullable = False\<rparr>"
| "expr_col_type (FunctionCall f t es) = t"

fun default_column_name :: "Expr \<Rightarrow> string option" where
  "default_column_name (ColumnRef tv c t) = Some c"
| "default_column_name e = None"

text \<open>
  An argument of a builder call is declared \<open>Any\<close>: an expression, a dictionary, a
  list or another Python value.
\<close>

datatype item =
    IExpr Expr
  | IDict "(string \<times> pyval) list"
  | IList "pyval list"
  | IVal pyval

text \<open>Decimal digits of a number, as \<open>str(j)\<close> and the f-strings print it.\<close>

definition digit_char :: "nat \<Rightarrow> char" where
  "digit_char n = ''0123456789'' ! n"

function show_nat :: "nat \<Rightarrow> string" where
  "show_nat n = (if n < 10 then [digit_char n]
                 else show_nat (n div 10) @ [digit_char (n mod 10)])"
  by pat_completeness auto
termination
  by (relation "measure (\<lambda>n. n)") auto

declare show_nat.simps [simp del]

text \<open>A Python dictionary in insertion order; assigning to a present key keeps its place.\<close>

fun dict_set :: "('k \<times> 'v) list \<Rightarrow> 'k \<Rightarrow> 'v \<Rightarrow> ('k \<times> 'v) list" where
  "dict_set [] k v = [(k, v)]"
| "dict_set ((k', v') # d) k v =
     (if k' = k then (k, v) # d else (k', v') # dict_set d k v)"

section \<open>DataFrame: the object and its constructor\<close>

text \<open>
  A DataFrame object. \<open>select_list_exprs\<close> and \<open>schema\<close> are the fields
  \<open>_select_list_exprs\<close> and \<open>_schema\<close>. The order-by list is a Python list that
  \<open>order_by\<close> extends in place, so the object holds its address and the list lives
  in the store; the other fields are never updated in place by the modelled code and
  are held by value. A deep copy of a value is the same value.
\<close>

record DataFrame =
  tbl :: TableVersionPath
  select_list_exprs :: "Expr list"
  schema :: "(string \<times> ColumnType) list"
  select_list :: "(Expr \<times> string option) list option"
  where_clause :: "Expr option"
  group_by_clause :: "Expr list option"
  grouping_tbl :: "TableVersion option"
  order_by_clause :: "ref option"
  limit_val :: "int option"

record Store =
  frames :: "ref \<rightharpoonup> DataFrame"
  order_lists :: "ref \<rightharpoonup> (Expr \<times> bool) list"
  next_addr :: ref

type_synonym 'a df_result = "(error + 'a) \<times> Store"

text \<open>
  The code outside \<open>dataframe.py\<close> that the DataFrame methods call:
  \<open>is_valid_identifier\<close> (catalog/globals.py) and the column references of
  \<open>tbl.columns()\<close>, for a path.
\<close>

record Env =
  is_valid_identifier :: "string \<Rightarrow> bool"
  path_columns :: "TableVersionPath \<Rightarrow> Expr list"

text \<open>
  \<^verbatim>\<open>
  def _select_list_check_rep(cls, select_list):
      if select_list is None:
          return
      assert len(select_list) > 0
      for ent in select_list:
          assert isinstance(ent, tuple)
          assert len(ent) == 2
          assert isinstance(ent[0], exprs.Expr)
          assert ent[1] is None or isinstance(ent[1], str)
          if isinstance(ent[1], str):
              assert is_valid_identifier(ent[1])
  \<close>
  The type of the argument gives the \<open>isinstance\<close> assertions.
\<close>

definition select_list_check_rep ::
  "Env \<Rightarrow> (Expr \<times> string option) list option \<Rightarrow> error + unit" where
  "select_list_check_rep env sl =
     (case sl of
        None \<Rightarrow> Inr ()
      | Some l \<Rightarrow>
          if \<not> length l > 0 then Inl AssertionError
          else if list_all (\<lambda>ent. case snd ent of
                                     None \<Rightarrow> True
                                   | Some s \<Rightarrow> is_valid_identifier env s) l
               then Inr ()
               else Inl AssertionError)"

text \<open>
  \<^verbatim>\<open>
  for j in range(1, len(out_names) + 1):
      column_name = f'{default_name}_{j}'
      if column_name not in seen_out_names:
          break
  \<close>
  \<open>seen_out_names\<close> is the set of \<open>out_names\<close> throughout.
\<close>

fun suffix_loop :: "string \<Rightarrow> string list \<Rightarrow> nat list \<Rightarrow> string \<Rightarrow> string" where
  "suffix_loop default_name seen [] column_name = column_name"
| "suffix_loop default_name seen (j # js) column_name =
     (let column_name' = default_name @ ''_'' @ show_nat j
      in if column_name' \<notin> set seen then column_name'
         else suffix_loop default_name seen js column_name')"

fun normalize_loop ::
  "nat \<Rightarrow> (Expr \<times> string option) list \<Rightarrow> Expr list \<Rightarrow> string list \<Rightarrow> Expr list \<times> string list" where
  "normalize_loop i [] out_exprs out_names = (out_exprs, out_names)"
| "normalize_loop i ((expr, nm) # rest) out_exprs out_names =
     (let column_name =
            (case nm of
               None \<Rightarrow>
                 (case default_column_name expr of
                    Some default_name \<Rightarrow>
                      if default_name \<in> set out_names
                      then suffix_loop default_name out_names
                             [1 ..< Suc (length out_names)] default_name
                      else default_name
                  | None \<Rightarrow> ''col_'' @ show_nat i)
             | Some n \<Rightarrow> n)
      in normalize_loop (Suc i) rest (out_exprs @ [expr]) (out_names @ [column_name]))"

definition normalize_select_list ::
  "Env \<Rightarrow> TableVersionPath \<Rightarrow> (Expr \<times> string option) list option \<Rightarrow> Expr list \<times> string list" where
  "normalize_select_list env t sl =
     normalize_loop 0
       (case sl of None \<Rightarrow> map (\<lambda>c. (c, None)) (path_columns env t) | Some l \<Rightarrow> l) [] []"

text \<open>
  \<^verbatim>\<open>
  self._schema = {column_names[i]: select_list_exprs[i].col_type
                  for i in range(len(column_names))}
  \<close>
\<close>

definition make_schema :: "string list \<Rightarrow> Expr list \<Rightarrow> (string \<times> ColumnType) list" where
  "make_schema column_names es =
     fold (\<lambda>(n, e) d. dict_set d n (expr_col_type e)) (zip column_names es) []"

text \<open>
  \<open>DataFrame.__init__\<close>. The arguments are checked, then the object is built: its
  order-by list (a deep copy of the argument) gets the next free address and the
  object the one after; without an order-by list the object gets the next free
  address. The address of the new object is returned.
\<close>

definition alloc_frame :: "DataFrame \<Rightarrow> (Expr \<times> bool) list option \<Rightarrow> Store \<Rightarrow> ref \<times> Store" where
  "alloc_frame df obc st =
     (case obc of
        None \<Rightarrow>
          (next_addr st,
           st\<lparr>frames := (frames st)(next_addr st \<mapsto> df\<lparr>order_by_clause := None\<rparr>),
              next_addr := Suc (next_addr st)\<rparr>)
      | Some l \<Rightarrow>
          (Suc (next_addr st),
           st\<lparr>frames := (frames st)(Suc (next_addr st) \<mapsto>
                           df\<lparr>order_by_clause := Some (next_addr st)\<rparr>),
              order_lists := (order_lists st)(next_addr st \<mapsto> l),
              next_addr := Suc (Suc (next_addr st))\<rparr>))"

definition DataFrame_init ::
  "Env \<Rightarrow> TableVersionPath \<Rightarrow> (Expr \<times> string option) list option \<Rightarrow> Expr option \<Rightarrow>
   Expr list option \<Rightarrow> TableVersion option \<Rightarrow> (Expr \<times> bool) list option \<Rightarrow> int option \<Rightarrow>
   Store \<Rightarrow> ref df_result" where
  "DataFrame_init env t sl wc gbc gt obc lim st =
     (case select_list_check_rep env sl of
        Inl e \<Rightarrow> (Inl e, st)
      | Inr _ \<Rightarrow>
          (let (es, column_names) = normalize_select_list env t sl
           in case select_list_check_rep env (Some (zip es (map Some column_names))) of
                Inl e \<Rightarrow> (Inl e, st)
              | Inr _ \<Rightarrow>
                  if \<not> length column_names = length es then (Inl AssertionError, st)
                  else if \<not> (gbc = None \<or> gt = None) then (Inl AssertionError, st)
                  else
                    (let (r, st') =
                           alloc_frame
                             \<lparr>tbl = t, select_list_exprs = es,
                              schema = make_schema column_names es,
                              select_list = sl, where_clause = wc, group_by_clause = gbc,
                              grouping_tbl = gt, order_by_clause = None, limit_val = lim\<rparr>
                             obc st
                     in (Inr r, st'))))"

text \<open>The order-by list of an object, read through its address.\<close>

definition order_by_list :: "Store \<Rightarrow> DataFrame \<Rightarrow> (Expr \<times> bool) list option" where
  "order_by_list st df =
     (case order_by_clause df of None \<Rightarrow> None | Some a \<Rightarrow> order_lists st a)"

section \<open>DataFrame: the builder methods\<close>

text \<open>
  Each method takes the address \<open>self\<close> of the receiver and the store, and returns
  the address of the resulting DataFrame (or the exception) with the store after the
  call. The methods carry the prefix \<open>df_\<close>.
\<close>

text \<open>
  \<^verbatim>\<open>
  if isinstance(raw_expr, exprs.Expr):   select_list.append((raw_expr, name))
  elif isinstance(raw_expr, dict):       select_list.append((exprs.InlineDict(raw_expr), name))
  elif isinstance(raw_expr, list):       select_list.append((exprs.InlineList(raw_expr), name))
  else:                                  select_list.append((exprs.Literal(raw_expr), name))
  \<close>
\<close>

definition wrap_item :: "item \<Rightarrow> Expr" where
  "wrap_item raw_expr =
     (case raw_expr of
        IExpr e \<Rightarrow> e
      | IDict d \<Rightarrow> InlineDict (map fst d) (map (\<lambda>kv. Literal (snd kv)) d)
      | IList l \<Rightarrow> InlineList (map Literal l)
      | IVal v \<Rightarrow> Literal v)"

fun analyze_select_list ::
  "(item \<times> string option) list \<Rightarrow> error + (Expr \<times> string option) list" where
  "analyze_select_list [] = Inr []"
| "analyze_select_list ((raw_expr, nm) # rest) =
     (let expr = wrap_item raw_expr
      in if is_invalid_type (expr_col_type expr) then Inl (Error ''Invalid type: <item>'')
         else (case analyze_select_list rest of
                 Inl e \<Rightarrow> Inl e
               | Inr sl \<Rightarrow> Inr ((expr, nm) # sl)))"

text \<open>
  \<^verbatim>\<open>
  seen: set[str] = set()
  _, names = DataFrame._normalize_select_list(self.tbl, select_list)
  for name in names:
      if name in seen:
          repeated_names = [j for j, x in enumerate(names) if x == name]
          pretty = ', '.join(map(str, repeated_names))
          raise excs.Error(f'Repeated column name "{name}" in select() at positions: {pretty}')
      seen.add(name)
  \<close>
\<close>

fun join_comma :: "string list \<Rightarrow> string" where
  "join_comma [] = ''''"
| "join_comma [s] = s"
| "join_comma (s # ss) = s @ '', '' @ join_comma ss"

fun check_repeated :: "string list \<Rightarrow> string list \<Rightarrow> string list \<Rightarrow> error + unit" where
  "check_repeated names [] seen = Inr ()"
| "check_repeated names (n # rest) seen =
     (if n \<in> set seen
      then Inl (Error (''Repeated column name \"'' @ n @ ''\" in select() at positions: '' @
                       join_comma (map show_nat
                         (filter (\<lambda>j. names ! j = n) [0 ..< length names]))))
      else check_repeated names rest (n # seen))"

fun first_invalid_name :: "Env \<Rightarrow> (string \<times> item) list \<Rightarrow> string option" where
  "first_invalid_name env [] = None"
| "first_invalid_name env ((k, x) # rest) =
     (if \<not> is_valid_identifier env k then Some k else first_invalid_name env rest)"

text \<open>
  \<^verbatim>\<open>
  def select(self, *items, **named_items):
      if self.select_list is not None:
          raise excs.Error(f'Select list already specified')
      for name, _ in named_items.items():
          if not isinstance(name, str) or not is_valid_identifier(name):
              raise excs.Error(f'Invalid name: {name}')
      base_list = [(expr, None) for expr in items] + [(expr, k) for (k, expr) in named_items.items()]
      if len(base_list) == 0:
          return self
      ... analyze the select list, check the names ...
      return DataFrame(self.tbl, select_list=select_list, where_clause=self.where_clause,
          group_by_clause=self.group_by_clause, grouping_tbl=self.grouping_tbl,
          order_by_clause=self.order_by_clause, limit=self.limit_val)
  \<close>
\<close>

definition df_select :: "Env \<Rightarrow> ref \<Rightarrow> item list \<Rightarrow> (string \<times> item) list \<Rightarrow> Store \<Rightarrow> ref df_result" where
  "df_select env self items named_items st =
     (case frames st self of
        None \<Rightarrow> (Inl NoSuchObject, st)
      | Some df \<Rightarrow>
          if select_list df \<noteq> None then (Inl (Error ''Select list already specified''), st)
          else
            (case first_invalid_name env named_items of
               Some n \<Rightarrow> (Inl (Error (''Invalid name: '' @ n)), st)
             | None \<Rightarrow>
                 (let base_list = map (\<lambda>expr. (expr, None)) items @
                                  map (\<lambda>(k, expr). (expr, Some k)) named_items
                  in if length base_list = 0 then (Inr self, st)
                     else
                       (case analyze_select_list base_list of
                          Inl e \<Rightarrow> (Inl e, st)
                        | Inr sl \<Rightarrow>
                            (let names = snd (normalize_select_list env (tbl df) (Some sl))
                             in case check_repeated names names [] of
                                  Inl e \<Rightarrow> (Inl e, st)
                                | Inr _ \<Rightarrow>
                                    DataFrame_init env (tbl df) (Some sl) (where_clause df)
                                      (group_by_clause df) (grouping_tbl df)
                                      (order_by_list st df) (limit_val df) st)))))"

text \<open>
  \<^verbatim>\<open>
  def where(self, pred):
      if not isinstance(pred, exprs.Expr):
          raise excs.Error(f'Where() requires a Pixeltable expression, but instead got {type(pred)}')
      if not pred.col_type.is_bool_type():
          raise excs.Error(f'Where(): expression needs to return bool, but instead returns {pred.col_type}')
      return DataFrame(self.tbl, select_list=self.select_list, where_clause=pred, ...)
  \<close>
\<close>

definition df_where :: "Env \<Rightarrow> ref \<Rightarrow> item \<Rightarrow> Store \<Rightarrow> ref df_result" where
  "df_where env self pred st =
     (case frames st self of
        None \<Rightarrow> (Inl NoSuchObject, st)
      | Some df \<Rightarrow>
          (case pred of
             IExpr p \<Rightarrow>
               if \<not> is_bool_type (expr_col_type p)
               then (Inl (Error ''Where(): expression needs to return bool, but instead returns <type>''), st)
               else DataFrame_init env (tbl df) (select_list df) (Some p)
                      (group_by_clause df) (grouping_tbl df)
                      (order_by_list st df) (limit_val df) st
           | _ \<Rightarrow> (Inl (Error ''Where() requires a Pixeltable expression, but instead got <type>''), st)))"

text \<open>
  An argument of \<open>group_by\<close>: a catalog table (its name and its path), an expression,
  or another value.
  \<^verbatim>\<open>
  def group_by(self, *grouping_items):
      if self.group_by_clause is not None:
          raise excs.Error(f'Group-by already specified')
      grouping_tbl = None
      group_by_clause = None
      for item in grouping_items:
          if isinstance(item, catalog.Table):
              if len(grouping_items) > 1:
                  raise excs.Error(f'group_by(): only one table can be specified')
              base = self.tbl.find_tbl_version(item._tbl_version_path.tbl_id())
              if base is None or base.id == self.tbl.tbl_id():
                  raise excs.Error(f'group_by(): {item._name} is not a base table of {self.tbl.tbl_name()}')
              grouping_tbl = item._tbl_version_path.tbl_version
              break
          if not isinstance(item, exprs.Expr):
              raise excs.Error(f'Invalid expression in group_by(): {item}')
      if grouping_tbl is None:
          group_by_clause = list(grouping_items)
      return DataFrame(self.tbl, select_list=self.select_list, where_clause=self.where_clause,
          group_by_clause=group_by_clause, grouping_tbl=grouping_tbl, ...)
  \<close>
\<close>

datatype grouping_item =
    GTable string TableVersionPath
  | GExpr Expr
  | GOther pyval

fun group_by_loop ::
  "TableVersionPath \<Rightarrow> nat \<Rightarrow> grouping_item list \<Rightarrow> error + TableVersion option" where
  "group_by_loop t n [] = Inr None"
| "group_by_loop t n (GTable nm p # rest) =
     (if n > 1 then Inl (Error ''group_by(): only one table can be specified'')
      else (case find_tbl_version t (tbl_id p) of
              None \<Rightarrow> Inl (Error (''group_by(): '' @ nm @ '' is not a base table of '' @ tbl_name t))
            | Some b \<Rightarrow>
                if tv_id b = tbl_id t
                then Inl (Error (''group_by(): '' @ nm @ '' is not a base table of '' @ tbl_name t))
                else Inr (Some (tbl_version p))))"
| "group_by_loop t n (GExpr e # rest) = group_by_loop t n rest"
| "group_by_loop t n (GOther v # rest) = Inl (Error ''Invalid expression in group_by(): <item>'')"

fun grouping_exprs :: "grouping_item list \<Rightarrow> Expr list" where
  "grouping_exprs [] = []"
| "grouping_exprs (GExpr e # rest) = e # grouping_exprs rest"
| "grouping_exprs (x # rest) = grouping_exprs rest"

definition df_group_by :: "Env \<Rightarrow> ref \<Rightarrow> grouping_item list \<Rightarrow> Store \<Rightarrow> ref df_result" where
  "df_group_by env self grouping_items st =
     (case frames st self of
        None \<Rightarrow> (Inl NoSuchObject, st)
      | Some df \<Rightarrow>
          if group_by_clause df \<noteq> None then (Inl (Error ''Group-by already specified''), st)
          else
            (case group_by_loop (tbl df) (length grouping_items) grouping_items of
               Inl e \<Rightarrow> (Inl e, st)
             | Inr gt \<Rightarrow>
                 DataFrame_init env (tbl df) (select_list df) (where_clause df)
                   (if gt = None then Some (grouping_exprs grouping_items) else None) gt
                   (order_by_list st df) (limit_val df) st))"

text \<open>
  \<^verbatim>\<open>
  def order_by(self, *expr_list, asc=True):
      for e in expr_list:
          if not isinstance(e, exprs.Expr):
              raise excs.Error(f'Invalid expression in order_by(): {e}')
      order_by_clause = self.order_by_clause if self.order_by_clause is not None else []
      order_by_clause.extend([(e.copy(), asc) for e in expr_list])
      return DataFrame(self.tbl, select_list=self.select_list, where_clause=self.where_clause,
          group_by_clause=self.group_by_clause, grouping_tbl=self.grouping_tbl,
          order_by_clause=order_by_clause, limit=self.limit_val)
  \<close>
  When the receiver has an order-by list, the local name \<open>order_by_clause\<close> is bound
  to that list object, and \<open>extend\<close> updates it in the store. Otherwise the name is
  bound to a new empty list, which no object keeps.
\<close>

fun item_exprs :: "item list \<Rightarrow> error + Expr list" where
  "item_exprs [] = Inr []"
| "item_exprs (IExpr e # rest) =
     (case item_exprs rest of Inl x \<Rightarrow> Inl x | Inr es \<Rightarrow> Inr (e # es))"
| "item_exprs (x # rest) = Inl (Error ''Invalid expression in order_by(): <item>'')"

definition df_order_by :: "Env \<Rightarrow> ref \<Rightarrow> item list \<Rightarrow> bool \<Rightarrow> Store \<Rightarrow> ref df_result" where
  "df_order_by env self expr_list asc st =
     (case frames st self of
        None \<Rightarrow> (Inl NoSuchObject, st)
      | Some df \<Rightarrow>
          (case item_exprs expr_list of
             Inl e \<Rightarrow> (Inl e, st)
           | Inr es \<Rightarrow>
               (case order_by_clause df of
                  None \<Rightarrow>
                    DataFrame_init env (tbl df) (select_list df) (where_clause df)
                      (group_by_clause df) (grouping_tbl df)
                      (Some ([] @ map (\<lambda>e. (e, asc)) es)) (limit_val df) st
                | Some a \<Rightarrow>
                    (case order_lists st a of
                       None \<Rightarrow> (Inl NoSuchObject, st)
                     | Some l \<Rightarrow>
                         (let st1 = st\<lparr>order_lists :=
                                        (order_lists st)(a \<mapsto> l @ map (\<lambda>e. (e, asc)) es)\<rparr>
                          in DataFrame_init env (tbl df) (select_list df) (where_clause df)
                               (group_by_clause df) (grouping_tbl df)
                               (order_lists st1 a) (limit_val df) st1)))))"

text \<open>
  \<^verbatim>\<open>
  def limit(self, n: int):
      assert n is not None and isinstance(n, int)
      return DataFrame(self.tbl, select_list=self.select_list, ..., limit=n)
  \<close>
\<close>

definition df_limit :: "Env \<Rightarrow> ref \<Rightarrow> int \<Rightarrow> Store \<Rightarrow> ref df_result" where
  "df_limit env self n st =
     (case frames st self of
        None \<Rightarrow> (Inl NoSuchObject, st)
      | Some df \<Rightarrow>
          DataFrame_init env (tbl df) (select_list df) (where_clause df)
            (group_by_clause df) (grouping_tbl df)
            (order_by_list st df) (Some n) st)"

section \<open>Example queries\<close>

text \<open>
  The table \<open>t\<close> has the integer columns \<open>c1\<close> and \<open>c2\<close>. The store \<open>st0\<close> holds
  the bare DataFrame of \<open>t\<close> at address 0 and, at address 2, the DataFrame
  \<open>t.select(t.c1).order_by(t.c1)\<close>, whose order-by list is at address 1.
\<close>

definition int_type :: ColumnType where
  "int_type = \<lparr>tag = IntType, nullable = False\<rparr>"

definition c1 :: Expr where
  "c1 = ColumnRef base_tv ''c1'' int_type"

definition c2 :: Expr where
  "c2 = ColumnRef base_tv ''c2'' int_type"

definition ex_env :: Env where
  "ex_env = \<lparr>is_valid_identifier = (\<lambda>s. s \<noteq> [] \<and> hd s \<noteq> CHR ''_''),
             path_columns = (\<lambda>p. [c1, c2])\<rparr>"

definition df_plain :: DataFrame where
  "df_plain =
     \<lparr>tbl = TableVersionPath base_tv None, select_list_exprs = [c1, c2],
      schema = [(''c1'', int_type), (''c2'', int_type)], select_list = None,
      where_clause = None, group_by_clause = None, grouping_tbl = None,
      order_by_clause = None, limit_val = None\<rparr>"

definition df_ordered :: DataFrame where
  "df_ordered =
     \<lparr>tbl = TableVersionPath base_tv None, select_list_exprs = [c1],
      schema = [(''c1'', int_type)], select_list = Some [(c1, None)],
      where_clause = None, group_by_clause = None, grouping_tbl = None,
      order_by_clause = Some 1, limit_val = None\<rparr>"

definition st0 :: Store where
  "st0 = \<lparr>frames = [0 \<mapsto> df_plain, 2 \<mapsto> df_ordered],
          order_lists = [1 \<mapsto> [(c1, True)]], next_addr = 3\<rparr>"

section \<open>DataFrame: parameters and bind\<close>

text \<open>
  Modelled from the spec: \<open>Expr.list_subexprs(all_exprs, expr_class=exprs.Variable)\<close>
  yields every variable occurrence of the trees, components before their parent. A
  \<open>Variable\<close> object is given by its name and its declared type.
\<close>

fun variables :: "Expr \<Rightarrow> (string \<times> ColumnType) list" where
  "variables (Variable n t) = [(n, t)]"
| "variables (ColumnRef tv c t) = []"
| "variables (Literal v) = []"
| "variables (InlineList es) = concat (map variables es)"
| "variables (InlineDict ks es) = concat (map variables es)"
| "variables (FunctionCall f t es) = concat (map variables es)"

definition list_subexprs :: "Expr list \<Rightarrow> (string \<times> ColumnType) list" where
  "list_subexprs es = concat (map variables es)"

text \<open>
  \<^verbatim>\<open>
  def _vars(self):
      all_exprs = []
      all_exprs.extend(self._select_list_exprs)
      if self.where_clause is not None:
          all_exprs.append(self.where_clause)
      if self.group_by_clause is not None:
          all_exprs.extend(self.group_by_clause)
      if self.order_by_clause is not None:
          all_exprs.extend([expr for expr, _ in self.order_by_clause])
      vars = exprs.Expr.list_subexprs(all_exprs, expr_class=exprs.Variable)
      unique_vars = {}
      for var in vars:
          if var.name not in unique_vars:
              unique_vars[var.name] = var
          else:
              if unique_vars[var.name].col_type != var.col_type:
                  raise excs.Error(f'Multiple definitions of parameter {var.name}')
      return unique_vars
  \<close>
  The dictionary \<open>unique_vars\<close> maps a name to the variable of that name, so it is the
  list of the variables kept, in insertion order.
\<close>

definition all_exprs :: "Store \<Rightarrow> DataFrame \<Rightarrow> Expr list" where
  "all_exprs st df =
     select_list_exprs df @
     (case where_clause df of None \<Rightarrow> [] | Some e \<Rightarrow> [e]) @
     (case group_by_clause df of None \<Rightarrow> [] | Some es \<Rightarrow> es) @
     (case order_by_list st df of None \<Rightarrow> [] | Some l \<Rightarrow> map fst l)"

fun unique_vars_loop ::
  "(string \<times> ColumnType) list \<Rightarrow> (string \<times> ColumnType) list \<Rightarrow>
   error + (string \<times> ColumnType) list" where
  "unique_vars_loop [] unique_vars = Inr unique_vars"
| "unique_vars_loop ((n, t) # vars) unique_vars =
     (case map_of unique_vars n of
        None \<Rightarrow> unique_vars_loop vars (unique_vars @ [(n, t)])
      | Some t' \<Rightarrow>
          if t' \<noteq> t then Inl (Error (''Multiple definitions of parameter '' @ n))
          else unique_vars_loop vars unique_vars)"

definition df_vars :: "Store \<Rightarrow> DataFrame \<Rightarrow> error + (string \<times> ColumnType) list" where
  "df_vars st df = unique_vars_loop (list_subexprs (all_exprs st df)) []"

text \<open>
  \<^verbatim>\<open>
  def parameters(self):
      vars = self._vars()
      return {name: var.col_type for name, var in vars.items()}
  \<close>
\<close>

definition df_parameters :: "ref \<Rightarrow> Store \<Rightarrow> error + (string \<times> ColumnType) list" where
  "df_parameters self st =
     (case frames st self of
        None \<Rightarrow> Inl NoSuchObject
      | Some df \<Rightarrow>
          (case df_vars st df of
             Inl e \<Rightarrow> Inl e
           | Inr vars \<Rightarrow> Inr (map (\<lambda>(n, t). (n, t)) vars)))"

text \<open>
  Modelled from the spec: \<open>Expr.from_object\<close> builds an expression from a supplied
  value, and gives \<open>None\<close> for a value that cannot be converted.
\<close>

definition from_object :: "item \<Rightarrow> Expr option" where
  "from_object x =
     (case x of
        IExpr e \<Rightarrow> Some e
      | IDict d \<Rightarrow> Some (InlineDict (map fst d) (map (\<lambda>kv. Literal (snd kv)) d))
      | IList l \<Rightarrow> Some (InlineList (map Literal l))
      | IVal (VOpaque s) \<Rightarrow> None
      | IVal v \<Rightarrow> Some (Literal v))"

text \<open>
  Modelled from the spec: \<open>Expr.substitute(spec)\<close> replaces each subexpression that
  equals a key of \<open>spec\<close> (a variable equals a variable of the same name) by a copy of
  the value of that key, and returns the result: the new expression when the
  receiver itself equals a key, the receiver with its components replaced otherwise.
  \<open>Expr.list_substitute(expr_list, spec)\<close> stores the result for each element back in
  the list.
\<close>

type_synonym substitution = "((string \<times> ColumnType) \<times> Expr) list"

fun find_match :: "substitution \<Rightarrow> string \<Rightarrow> Expr option" where
  "find_match [] n = None"
| "find_match (((n', t'), new) # spec) n =
     (if n' = n then Some new else find_match spec n)"

fun substitute :: "substitution \<Rightarrow> Expr \<Rightarrow> Expr" where
  "substitute spec (Variable n t) =
     (case find_match spec n of Some new \<Rightarrow> new | None \<Rightarrow> Variable n t)"
| "substitute spec (ColumnRef tv c t) = ColumnRef tv c t"
| "substitute spec (Literal v) = Literal v"
| "substitute spec (InlineList es) = InlineList (map (substitute spec) es)"
| "substitute spec (InlineDict ks es) = InlineDict ks (map (substitute spec) es)"
| "substitute spec (FunctionCall f t es) = FunctionCall f t (map (substitute spec) es)"

text \<open>
  The statement \<open>where_clause.substitute(var_exprs)\<close> of \<open>bind\<close> drops the returned
  expression; the local name \<open>where_clause\<close> keeps referring to the receiver of the
  call. That object has its components replaced; when it is itself a variable it
  stays that variable.
\<close>

fun after_substitute :: "substitution \<Rightarrow> Expr \<Rightarrow> Expr" where
  "after_substitute spec (Variable n t) = Variable n t"
| "after_substitute spec e = substitute spec e"

text \<open>
  \<^verbatim>\<open>
  for arg_name, arg_val in args.items():
      if arg_name not in vars:
          continue
      var_expr = vars[arg_name]
      arg_expr = exprs.Expr.from_object(arg_val)
      if arg_expr is None:
          raise excs.Error(f'Cannot convert argument {arg_val} to a Pixeltable expression')
      var_exprs[var_expr] = arg_expr
  \<close>
\<close>

fun bind_args ::
  "(string \<times> ColumnType) list \<Rightarrow> (string \<times> item) list \<Rightarrow> substitution \<Rightarrow>
   error + substitution" where
  "bind_args vars [] var_exprs = Inr var_exprs"
| "bind_args vars ((arg_name, arg_val) # rest) var_exprs =
     (case map_of vars arg_name of
        None \<Rightarrow> bind_args vars rest var_exprs
      | Some t \<Rightarrow>
          (case from_object arg_val of
             None \<Rightarrow> Inl (Error ''Cannot convert argument <value> to a Pixeltable expression'')
           | Some arg_expr \<Rightarrow>
               bind_args vars rest (dict_set var_exprs (arg_name, t) arg_expr)))"

text \<open>
  \<^verbatim>\<open>
  def bind(self, args):
      select_list_exprs = copy.deepcopy(self._select_list_exprs)
      where_clause = copy.deepcopy(self.where_clause)
      group_by_clause = copy.deepcopy(self.group_by_clause)
      order_by_exprs = [copy.deepcopy(order_by_expr) for order_by_expr, _ in self.order_by_clause] \
          if self.order_by_clause is not None else None
      var_exprs = {}
      vars = self._vars()
      ... the loop over args ...
      exprs.Expr.list_substitute(select_list_exprs, var_exprs)
      if where_clause is not None:
          where_clause.substitute(var_exprs)
      if group_by_clause is not None:
          exprs.Expr.list_substitute(group_by_clause, var_exprs)
      if order_by_exprs is not None:
          exprs.Expr.list_substitute(order_by_exprs, var_exprs)
      select_list = list(zip(select_list_exprs, self.schema.keys()))
      order_by_clause = None
      if order_by_exprs is not None:
          order_by_clause = [
              (expr, asc) for expr, asc in zip(order_by_exprs, [asc for _, asc in self.order_by_clause])]
      return DataFrame(
          self.tbl, select_list=select_list, where_clause=where_clause,
          group_by_clause=group_by_clause, grouping_tbl=self.grouping_tbl,
          order_by_clause=order_by_clause, limit=self.limit_val)
  \<close>
\<close>

definition df_bind :: "Env \<Rightarrow> ref \<Rightarrow> (string \<times> item) list \<Rightarrow> Store \<Rightarrow> ref df_result" where
  "df_bind env self args st =
     (case frames st self of
        None \<Rightarrow> (Inl NoSuchObject, st)
      | Some df \<Rightarrow>
          (case df_vars st df of
             Inl e \<Rightarrow> (Inl e, st)
           | Inr vars \<Rightarrow>
               (case bind_args vars args [] of
                  Inl e \<Rightarrow> (Inl e, st)
                | Inr var_exprs \<Rightarrow>
                    (let select_list_exprs' = map (substitute var_exprs) (select_list_exprs df);
                         where_clause' = map_option (after_substitute var_exprs) (where_clause df);
                         group_by_clause' =
                           map_option (map (substitute var_exprs)) (group_by_clause df);
                         sl = zip select_list_exprs' (map fst (schema df));
                         order_by_clause' =
                           (case order_by_list st df of
                              None \<Rightarrow> None
                            | Some l \<Rightarrow>
                                Some (zip (map (\<lambda>ob. substitute var_exprs (fst ob)) l)
                                          (map snd l)))
                     in DataFrame_init env (tbl df) (Some (map (\<lambda>(e, n). (e, Some n)) sl))
                          where_clause' group_by_clause' (grouping_tbl df)
                          order_by_clause' (limit_val df) st))))"

text \<open>
  A query with a parameter: \<open>t.select(t.c1).where(x)\<close> for a boolean variable \<open>x\<close>,
  at address 0 of \<open>st_param\<close>, and \<open>t.select(t.c1).where(f(x))\<close> at address 1, for a
  boolean function \<open>f\<close>.
\<close>

definition bool_type :: ColumnType where
  "bool_type = \<lparr>tag = BoolType, nullable = False\<rparr>"

definition df_param :: DataFrame where
  "df_param =
     \<lparr>tbl = TableVersionPath base_tv None, select_list_exprs = [c1],
      schema = [(''c1'', int_type)], select_list = Some [(c1, None)],
      where_clause = Some (Variable ''x'' bool_type), group_by_clause = None,
      grouping_tbl = None, order_by_clause = None, limit_val = None\<rparr>"

definition df_param_nested :: DataFrame where
  "df_param_nested =
     df_param\<lparr>where_clause := Some (FunctionCall ''f'' bool_type [Variable ''x'' bool_type])\<rparr>"

definition st_param :: Store where
  "st_param = \<lparr>frames = [0 \<mapsto> df_param, 1 \<mapsto> df_param_nested],
               order_lists = Map.empty, next_addr = 2\<rparr>"

section \<open>DataFrame: as_dict, from_dict and the query plan\<close>




















text \<open>
  What the constructor establishes for the object it builds: the select list passed
  its checks, \<open>_select_list_exprs\<close> and \<open>_schema\<close> are derived from it, and at most
  one of the group-by clause and the grouping table is set.
\<close>

definition constructed :: "Env \<Rightarrow> DataFrame \<Rightarrow> bool" where
  "constructed env df =
     (select_list_check_rep env (select_list df) = Inr () \<and>
      select_list_check_rep env
        (Some (zip (fst (normalize_select_list env (tbl df) (select_list df)))
                   (map Some (snd (normalize_select_list env (tbl df) (select_list df))))))
        = Inr () \<and>
      length (snd (normalize_select_list env (tbl df) (select_list df))) =
        length (fst (normalize_select_list env (tbl df) (select_list df))) \<and>
      select_list_exprs df = fst (normalize_select_list env (tbl df) (select_list df)) \<and>
      schema df = make_schema (snd (normalize_select_list env (tbl df) (select_list df)))
                    (fst (normalize_select_list env (tbl df) (select_list df))) \<and>
      (group_by_clause df = None \<or> grouping_tbl df = None))"







text \<open>
  A snapshot \<open>s\<close> of \<open>t\<close> has the path \<open>TableVersionPath snap_tv None\<close>. The
  expressions \<open>t.c3 * 2\<close> and \<open>t.c2 < 10\<close> refer to the live table \<open>t\<close>;
  \<open>s.c3 * 2\<close> refers to the snapshot.
\<close>

definition float_type :: ColumnType where
  "float_type = \<lparr>tag = FloatType, nullable = True\<rparr>"

definition live_c3_times_2 :: Expr where
  "live_c3_times_2 =
     FunctionCall ''mul'' float_type [ColumnRef base_tv ''c3'' float_type, Literal (VInt 2)]"

definition snap_c3_times_2 :: Expr where
  "snap_c3_times_2 =
     FunctionCall ''mul'' float_type [ColumnRef snap_tv ''c3'' float_type, Literal (VInt 2)]"

definition live_c2_lt_10 :: Expr where
  "live_c2_lt_10 = FunctionCall ''lt'' bool_type [c2, Literal (VInt 10)]"

definition computed_col :: "string \<Rightarrow> Expr \<Rightarrow> Column" where
  "computed_col n e =
     \<lparr>name = n, col_type = float_type, stored = True, is_computed = True,
      value_expr = Some e\<rparr>"

section \<open>Theorems\<close>

lemma path_is_snapshot_iff:
  "path_is_snapshot p = list_all is_snapshot (get_tbl_versions p)"
  by (induction p rule: get_tbl_versions.induct) (auto split: option.splits)

lemma get_snapshot_path_fixed:
  "path_is_snapshot p \<Longrightarrow> get_snapshot_path p = Inr p"
  by (cases p) (simp del: path_is_snapshot.simps)

lemma pinned_snapshot_id: "list_all is_snapshot vs \<Longrightarrow> map pinned vs = vs"
  by (induction vs) (auto simp: pinned_def)

lemma get_snapshot_path_versions:
  "\<exists>p'. get_snapshot_path p = Inr p' \<and>
        get_tbl_versions p' = map pinned (get_tbl_versions p)"
proof (induction p rule: get_snapshot_path.induct)
  case (1 tv b)
  show ?case
  proof (cases "path_is_snapshot (TableVersionPath tv b)")
    case True
    then have "map pinned (get_tbl_versions (TableVersionPath tv b)) =
               get_tbl_versions (TableVersionPath tv b)"
      using pinned_snapshot_id path_is_snapshot_iff by blast
    with True show ?thesis
      using get_snapshot_path_fixed by fastforce
  next
    case False
    show ?thesis
    proof (cases b)
      case None
      with False show ?thesis
        by (simp add: pinned_def create_snapshot_copy_def)
    next
      case (Some p)
      have "\<exists>p'. get_snapshot_path p = Inr p' \<and>
                 get_tbl_versions p' = map pinned (get_tbl_versions p)"
        using "1.IH" [of "pinned tv" p] False Some
        by (auto simp: pinned_def create_snapshot_copy_def Let_def split: if_splits)
      then obtain p' where p': "get_snapshot_path p = Inr p'"
        "get_tbl_versions p' = map pinned (get_tbl_versions p)" by blast
      with False Some show ?thesis
        by (auto simp: pinned_def create_snapshot_copy_def)
    qed
  qed
qed

lemma pinned_is_snapshot: "is_snapshot (pinned tv)"
  by (simp add: pinned_def create_snapshot_copy_def)

lemma pinned_id: "tv_id (pinned tv) = tv_id tv"
  by (simp add: pinned_def create_snapshot_copy_def)

text \<open>
  C3. For every path, the snapshot path is computed without error; its chain is
  the input chain with every non-snapshot version replaced by its snapshot copy and
  every snapshot version kept; every version of the result is a snapshot version, so
  \<open>is_snapshot()\<close> of the result holds; the chain has the same length and the same
  table ids in the same order; and a path whose \<open>is_snapshot()\<close> holds is returned
  unchanged.
\<close>

theorem get_snapshot_path_correct:
  "\<exists>p'. get_snapshot_path p = Inr p' \<and>
        get_tbl_versions p' = map pinned (get_tbl_versions p) \<and>
        list_all is_snapshot (get_tbl_versions p') \<and>
        path_is_snapshot p' \<and>
        length (get_tbl_versions p') = length (get_tbl_versions p) \<and>
        map tv_id (get_tbl_versions p') = map tv_id (get_tbl_versions p) \<and>
        (path_is_snapshot p \<longrightarrow> p' = p)"
proof -
  obtain p' where p': "get_snapshot_path p = Inr p'"
    "get_tbl_versions p' = map pinned (get_tbl_versions p)"
    using get_snapshot_path_versions by blast
  have all: "list_all is_snapshot (get_tbl_versions p')"
    by (simp add: p'(2) list_all_iff pinned_is_snapshot)
  have ids: "map tv_id (get_tbl_versions p') = map tv_id (get_tbl_versions p)"
    by (simp add: p'(2) pinned_id)
  have len: "length (get_tbl_versions p') = length (get_tbl_versions p)"
    by (simp add: p'(2))
  have fixed: "path_is_snapshot p \<longrightarrow> p' = p"
    using p'(1) get_snapshot_path_fixed by fastforce
  from p' all ids len fixed show ?thesis
    by (simp add: path_is_snapshot_iff)
qed

text \<open>
  C2. For every view and every argument combination, \<open>insert\<close> raises an error and
  \<open>delete\<close> raises an error, and the state (objects, catalog, backing store) after
  the call is the state before it.
\<close>

theorem view_insert_delete_fail:
  "(\<exists>msg. View_insert self rows print_stats on_err kwargs w = (Inl (Error msg), w)) \<and>
   (\<exists>msg. View_delete self where_arg w = (Inl (Error msg), w))"
  by (simp add: View_insert_def View_delete_def)

theorem get_snapshot_path_correct_witness:
  "path_is_snapshot (TableVersionPath snap_tv None) \<and>
   get_snapshot_path (TableVersionPath snap_tv None) = Inr (TableVersionPath snap_tv None) \<and>
   get_snapshot_path (TableVersionPath live_tv (Some (TableVersionPath snap_tv None))) =
     Inr (TableVersionPath (live_tv\<lparr>is_snapshot := True\<rparr>) (Some (TableVersionPath snap_tv None)))"
  using get_snapshot_path_correct [of "TableVersionPath snap_tv None"]
        get_snapshot_path_correct [of "TableVersionPath live_tv (Some (TableVersionPath snap_tv None))"]
  by (simp add: live_tv_def snap_tv_def create_snapshot_copy_def pinned_def Let_def)

lemma verify_schema_nonnullable:
  "c \<in> set cols \<Longrightarrow> \<not> is_computed c \<Longrightarrow> \<not> nullable (col_type c) \<Longrightarrow>
   \<exists>e. verify_schema sv cols names = Inl e"
proof (induction cols arbitrary: names)
  case Nil
  then show ?case by simp
next
  case (Cons a cols)
  show ?case
  proof (cases "verify_column sv a names")
    case (Inl e)
    then show ?thesis by simp
  next
    case (Inr u)
    then have "a \<noteq> c"
      using Cons.prems by (auto simp: verify_column_def)
    then have "c \<in> set cols" using Cons.prems by simp
    then show ?thesis using Cons.IH Cons.prems Inr by simp
  qed
qed

lemma check_value_exprs_unbound:
  "c \<in> set cols \<Longrightarrow> is_computed c \<Longrightarrow> value_expr c = Some x \<Longrightarrow> \<not> is_bound_by x p \<Longrightarrow>
   \<exists>e. check_value_exprs cols p = Inl e"
  by (induction cols) (auto split: option.splits)

lemma check_predicate_unbound:
  "\<not> is_bound_by x p \<Longrightarrow> \<exists>e. check_predicate (Some x) p = Inl e"
  by (simp add: check_predicate_def)

text \<open>
  C6. View creation raises an error, and leaves the whole state (catalog maps
  \<open>tbls\<close> and \<open>tbl_dependents\<close>, objects, backing store) as it was, whenever an
  additional non-computed column is non-nullable, or a computed column's value
  expression is not boundable by the base path, or the supplied predicate is not
  boundable by the base path.
\<close>

theorem view_create_validation_fails:
  assumes "(\<exists>c \<in> set columns. \<not> is_computed c \<and> \<not> nullable (col_type c)) \<or>
           (\<exists>c \<in> set columns. \<exists>x. is_computed c \<and> value_expr c = Some x \<and>
                                   \<not> is_bound_by x base_path) \<or>
           (\<exists>x. predicate = Some x \<and> \<not> is_bound_by x base_path)"
  shows "\<exists>e. View_create sv new_id load_exc dir_id nm base_path columns predicate is_snap
               num_retained_versions comment media_validation iterator_cls iterator_args w
             = (Inl e, w)"
proof -
  consider (a) "\<exists>e. verify_schema sv columns {} = Inl e"
    | (b) "\<exists>e. check_predicate predicate base_path = Inl e"
    | (c) "\<exists>e. check_value_exprs columns base_path = Inl e"
    using assms verify_schema_nonnullable check_value_exprs_unbound check_predicate_unbound
    by blast
  then show ?thesis
  proof cases
    case a
    then show ?thesis by (auto simp: View_create_def)
  next
    case b
    then show ?thesis by (auto simp: View_create_def split: sum.splits)
  next
    case c
    then show ?thesis by (auto simp: View_create_def split: sum.splits)
  qed
qed

theorem view_create_validation_fails_witness:
  "(\<exists>e. View_create no_super_check 7 None 0 ''v'' (TableVersionPath base_tv None)
           [int_col ''c1'' False] None False 1 '''' ON_READ None None w0 = (Inl e, w0)) \<and>
   \<not> is_bound_by live_c3_times_2 (TableVersionPath snap_tv None) \<and>
   (\<exists>e. View_create no_super_check 7 None 0 ''test_view'' (TableVersionPath snap_tv None)
           [computed_col ''v1'' live_c3_times_2] None False 1 '''' ON_READ None None w0
         = (Inl e, w0)) \<and>
   \<not> is_bound_by live_c2_lt_10 (TableVersionPath snap_tv None) \<and>
   (\<exists>e. View_create no_super_check 7 None 0 ''test_view'' (TableVersionPath snap_tv None)
           [] (Some live_c2_lt_10) False 1 '''' ON_READ None None w0 = (Inl e, w0)) \<and>
   is_bound_by snap_c3_times_2 (TableVersionPath snap_tv None)"
proof -
  have a: "\<exists>c \<in> set [int_col ''c1'' False]. \<not> is_computed c \<and> \<not> nullable (col_type c)"
    by (simp add: int_col_def Column_init_def)
  have nb: "\<not> is_bound_by live_c3_times_2 (TableVersionPath snap_tv None)"
    by (simp add: live_c3_times_2_def base_tv_def snap_tv_def effective_version_def)
  have np: "\<not> is_bound_by live_c2_lt_10 (TableVersionPath snap_tv None)"
    by (simp add: live_c2_lt_10_def c2_def base_tv_def snap_tv_def effective_version_def)
  have b: "\<exists>c \<in> set [computed_col ''v1'' live_c3_times_2]. \<exists>x.
             is_computed c \<and> value_expr c = Some x \<and>
             \<not> is_bound_by x (TableVersionPath snap_tv None)"
    using nb by (simp add: computed_col_def)
  have p: "\<exists>x. Some live_c2_lt_10 = Some x \<and>
             \<not> is_bound_by x (TableVersionPath snap_tv None)"
    using np by simp
  have ok: "is_bound_by snap_c3_times_2 (TableVersionPath snap_tv None)"
    by (simp add: snap_c3_times_2_def snap_tv_def effective_version_def)
  from view_create_validation_fails
         [of "[int_col ''c1'' False]" "TableVersionPath base_tv None" None no_super_check 7 None 0
             "''v''" False 1 "''''" ON_READ None None w0] a
  have 1: "\<exists>e. View_create no_super_check 7 None 0 ''v'' (TableVersionPath base_tv None)
           [int_col ''c1'' False] None False 1 '''' ON_READ None None w0 = (Inl e, w0)"
    by blast
  from view_create_validation_fails
         [of "[computed_col ''v1'' live_c3_times_2]" "TableVersionPath snap_tv None" None
             no_super_check 7 None 0 "''test_view''" False 1 "''''" ON_READ None None w0] b
  have 2: "\<exists>e. View_create no_super_check 7 None 0 ''test_view'' (TableVersionPath snap_tv None)
           [computed_col ''v1'' live_c3_times_2] None False 1 '''' ON_READ None None w0
         = (Inl e, w0)"
    by blast
  from view_create_validation_fails
         [of "[]" "TableVersionPath snap_tv None" "Some live_c2_lt_10"
             no_super_check 7 None 0 "''test_view''" False 1 "''''" ON_READ None None w0] p
  have 3: "\<exists>e. View_create no_super_check 7 None 0 ''test_view'' (TableVersionPath snap_tv None)
           [] (Some live_c2_lt_10) False 1 '''' ON_READ None None w0 = (Inl e, w0)"
    by blast
  from 1 2 3 nb np ok show ?thesis by blast
qed

text \<open>
  The two rejected calls of \<open>test_snapshots\<close>: a view over the snapshot \<open>s\<close> of \<open>t\<close>
  with the computed column \<open>t.c3 * 2\<close>, and one with the filter \<open>t.c2 < 10\<close>, raise
  the errors the test expects; the same column over \<open>s.c3\<close> is accepted.
\<close>

lemma view_create_on_snapshot_live_refs:
  "View_create no_super_check 7 None 0 ''test_view'' (TableVersionPath snap_tv None)
     [computed_col ''v1'' live_c3_times_2] None False 1 '''' ON_READ None None w0 =
   (Inl (Error ''Column v1: value expression cannot be computed in the context of the base t''),
    w0) \<and>
   View_create no_super_check 7 None 0 ''test_view'' (TableVersionPath snap_tv None)
     [] (Some live_c2_lt_10) False 1 '''' ON_READ None None w0 =
   (Inl (Error ''Filter cannot be computed in the context of the base t''), w0) \<and>
   fst (View_create no_super_check 7 None 0 ''test_view'' (TableVersionPath snap_tv None)
     [computed_col ''v1'' snap_c3_times_2] None False 1 '''' ON_READ None None w0) = Inr 1"
  by (simp add: View_create_def verify_column_def no_super_check_def computed_col_def
      float_type_def check_predicate_def live_c3_times_2_def live_c2_lt_10_def
      snap_c3_times_2_def c2_def base_tv_def snap_tv_def effective_version_def tbl_name_def
      add_iterator_columns_def create_in_session_def TableVersion_create_def
      pure_snapshot_def View_init_def commit_and_register_def w0_def tbl_id_def Let_def)

lemma commit_and_register_ok:
  assumes "commit_and_register view md cols phys b w = (Inr r, w')"
  shows "r = next_ref w \<and> heap w' r = Some view \<and>
         (\<exists>l. ((tbl_dependents (cat w))(v_id view \<mapsto> [])) b = Some l \<and>
              tbl_dependents (cat w') = (tbl_dependents (cat w))(v_id view \<mapsto> [], b \<mapsto> l @ [r])) \<and>
         tbls (cat w') = (tbls (cat w))(v_id view \<mapsto> r) \<and>
         md_store w' = (md_store w)(v_id view \<mapsto> (md, cols))"
  using assms
  by (auto simp: commit_and_register_def Let_def split: option.splits if_splits)

lemma create_in_session_unfold:
  assumes b: "(if is_snap then get_snapshot_path base_path else Inr base_path) = Inr bvp"
  shows "create_in_session new_id load_exc dir_id nm base_path cols' p' is_snap
           iterator_cls iterator_args w =
         (let cols = (if is_snap then retarget_columns bvp cols' else cols');
              md = session_md is_snap bvp p' iterator_cls iterator_args
          in if pure_snapshot cols md
             then (case View_init new_id dir_id nm bvp (tbl_id base_path) True w of
                     Inl e \<Rightarrow> (Inl e, w)
                   | Inr view \<Rightarrow> commit_and_register view md cols False (tbl_id base_path) w)
             else (case View_init new_id dir_id nm
                          (TableVersionPath \<lparr>tv_id = new_id, tv_name = nm, version = 0,
                                             is_snapshot = is_snap\<rparr> (Some bvp))
                          (tbl_id base_path) False w of
                     Inl e \<Rightarrow> (Inl e, w)
                   | Inr view \<Rightarrow>
                       (case load_exc of
                          Some e \<Rightarrow> (Inl e, w)
                        | None \<Rightarrow> commit_and_register view md cols True (tbl_id base_path) w)))"
  unfolding create_in_session_def Let_def b session_md_def TableVersion_create_def
  by simp

lemma View_init_Inr:
  "View_init i d n p b s w = Inr view \<Longrightarrow>
   v_id view = i \<and> v_base_id view = b \<and> v_snapshot_only view = s \<and>
   tbl_dependents (cat w) b \<noteq> None"
  by (auto simp: View_init_def split: if_splits)

lemma create_in_session_success:
  assumes s: "create_in_session new_id load_exc dir_id nm base_path cols' p' is_snap
                iterator_cls iterator_args w = (Inr r, w')"
      and b: "(if is_snap then get_snapshot_path base_path else Inr base_path) = Inr bvp"
  shows "\<exists>view md.
           commit_and_register view md (if is_snap then retarget_columns bvp cols' else cols')
             (\<not> v_snapshot_only view) (tbl_id base_path) w = (Inr r, w') \<and>
           v_id view = new_id \<and> v_base_id view = tbl_id base_path"
proof -
  let ?cols = "if is_snap then retarget_columns bvp cols' else cols'"
  let ?md = "session_md is_snap bvp p' iterator_cls iterator_args"
  note u = create_in_session_unfold [OF b, of new_id load_exc dir_id nm cols' p'
             iterator_cls iterator_args w]
  show ?thesis
  proof (cases "pure_snapshot ?cols ?md")
    case True
    with s u obtain view where
      v: "View_init new_id dir_id nm bvp (tbl_id base_path) True w = Inr view" and
      c: "commit_and_register view ?md ?cols False (tbl_id base_path) w = (Inr r, w')"
      by (auto simp: Let_def split: sum.splits)
    from View_init_Inr [OF v] c show ?thesis
      by (intro exI [of _ view] exI [of _ ?md]) simp
  next
    case False
    with s u obtain view where
      v: "View_init new_id dir_id nm
            (TableVersionPath \<lparr>tv_id = new_id, tv_name = nm, version = 0,
                               is_snapshot = is_snap\<rparr> (Some bvp))
            (tbl_id base_path) False w = Inr view" and
      c: "commit_and_register view ?md ?cols True (tbl_id base_path) w = (Inr r, w')"
      by (auto simp: Let_def split: sum.splits option.splits)
    from View_init_Inr [OF v] c show ?thesis
      by (intro exI [of _ view] exI [of _ ?md]) simp
  qed
qed

lemma View_create_success:
  assumes "View_create sv new_id load_exc dir_id nm base_path columns predicate is_snap
             nrv comment mv iterator_cls iterator_args w = (Inr r, w')"
  shows "\<exists>view md cols' bvp.
           add_iterator_columns iterator_cls iterator_args columns = Inr cols' \<and>
           (if is_snap then get_snapshot_path base_path else Inr base_path) = Inr bvp \<and>
           commit_and_register view md (if is_snap then retarget_columns bvp cols' else cols')
             (\<not> v_snapshot_only view) (tbl_id base_path) w = (Inr r, w') \<and>
           v_id view = new_id \<and> v_base_id view = tbl_id base_path"
proof -
  from assms obtain p' cols' where
    a: "add_iterator_columns iterator_cls iterator_args columns = Inr cols'" and
    s: "create_in_session new_id load_exc dir_id nm base_path cols' p' is_snap
          iterator_cls iterator_args w = (Inr r, w')"
    by (auto simp: View_create_def split: sum.splits)
  from s obtain bvp where
    b: "(if is_snap then get_snapshot_path base_path else Inr base_path) = Inr bvp"
    by (cases "if is_snap then get_snapshot_path base_path else Inr base_path")
       (auto simp: create_in_session_def Let_def)
  from create_in_session_success [OF s b] a b show ?thesis
    by blast
qed

text \<open>
  C4. After a successful view creation whose new id differs from the base's id, the
  catalog maps the new id to an empty dependents list, the dependents list of the
  direct base is the old list with the new view appended once at its end, and \<open>tbls\<close>
  maps the new id to the new view object, which carries the new id and the base's id.
\<close>

theorem view_create_registers:
  assumes "View_create sv new_id load_exc dir_id nm base_path columns predicate is_snap
             nrv comment mv iterator_cls iterator_args w = (Inr r, w')"
      and "new_id \<noteq> tbl_id base_path"
  shows "tbl_dependents (cat w') new_id = Some [] \<and>
         (\<exists>l. tbl_dependents (cat w) (tbl_id base_path) = Some l \<and>
              tbl_dependents (cat w') (tbl_id base_path) = Some (l @ [r])) \<and>
         tbls (cat w') new_id = Some r \<and>
         (\<exists>v. heap w' r = Some v \<and> v_id v = new_id \<and> v_base_id v = tbl_id base_path) \<and>
         r = next_ref w"
proof -
  from View_create_success [OF assms(1)] obtain view md cols where
    c: "commit_and_register view md cols (\<not> v_snapshot_only view) (tbl_id base_path) w
          = (Inr r, w')" and
    i: "v_id view = new_id" "v_base_id view = tbl_id base_path"
    by blast
  from commit_and_register_ok [OF c] i assms(2) show ?thesis
    by auto
qed

theorem view_create_registers_witness:
  "fst created_view = Inr 1 \<and>
   tbl_dependents (cat (snd created_view)) 7 = Some [] \<and>
   tbl_dependents (cat (snd created_view)) 1 = Some [1] \<and>
   tbls (cat (snd created_view)) 7 = Some 1"
proof -
  have "\<exists>w'. created_view = (Inr 1, w')"
    by (simp add: created_view_def View_create_def verify_column_def no_super_check_def
        int_col_def Column_init_def check_predicate_def add_iterator_columns_def
        create_in_session_def TableVersion_create_def pure_snapshot_def View_init_def
        commit_and_register_def w0_def tbl_id_def base_tv_def Let_def)
  then obtain w' where e: "created_view = (Inr 1, w')" by blast
  have t: "tbl_id (TableVersionPath base_tv None) = 1"
    by (simp add: tbl_id_def base_tv_def)
  have n: "(7::nat) \<noteq> tbl_id (TableVersionPath base_tv None)"
    by (simp add: t)
  from view_create_registers [OF e [unfolded created_view_def] n]
  have "tbl_dependents (cat w') 7 = Some []"
    and "tbl_dependents (cat w') 1 = Some [1]"
    and "tbls (cat w') 7 = Some 1"
    by (auto simp: t w0_def)
  then show ?thesis by (simp add: e)
qed

lemma check_duplicates_hit:
  "c \<in> set cols \<Longrightarrow> name c \<in> S \<Longrightarrow> \<exists>e. check_duplicates cols S = Inl e"
  by (induction cols) auto

lemma iterator_cols_names:
  "set (map name (iterator_cols it args)) =
   insert POS_COLUMN_NAME (fst ` set (fst (output_schema it args)))"
proof (cases "output_schema it args")
  case (Pair od un)
  have "name ` (\<lambda>(col_name, col_type). Column_init col_name col_type (col_name \<notin> set un)) ` set od
        = fst ` set od"
    by (force simp: Column_init_def image_iff)
  with Pair show ?thesis
    by (simp add: iterator_cols_def Column_init_def image_image)
qed

lemma add_iterator_columns_Inr:
  "add_iterator_columns (Some it) (Some args) columns = Inr cols' \<Longrightarrow>
   cols' = iterator_cols it args @ columns"
  by (auto simp: add_iterator_columns_def Let_def split: option.splits sum.splits error.splits)

lemma add_iterator_columns_collision:
  assumes "c \<in> set columns"
      and "name c = POS_COLUMN_NAME \<or> name c \<in> fst ` set (fst (output_schema it args))"
  shows "\<exists>e. add_iterator_columns (Some it) (Some args) columns = Inl e"
proof -
  from assms have "name c \<in> set (map name (iterator_cols it args))"
    unfolding iterator_cols_names by blast
  from check_duplicates_hit [OF assms(1) this] show ?thesis
    by (auto simp: add_iterator_columns_def Let_def split: option.splits sum.splits error.splits)
qed

lemma retarget_columns_iterator_cols:
  "retarget_columns p (iterator_cols it args @ columns) =
   iterator_cols it args @ retarget_columns p columns"
  by (cases "output_schema it args")
     (simp add: retarget_columns_def iterator_cols_def Column_init_def case_prod_unfold)

lemma retarget_columns_schema:
  "map (\<lambda>c. (name c, col_type c, stored c, is_computed c)) (retarget_columns p columns) =
   map (\<lambda>c. (name c, col_type c, stored c, is_computed c)) columns"
  by (induction columns) (auto simp: retarget_columns_def set_value_expr_def split: option.splits)

lemma View_create_Inl_unchanged_pre:
  "add_iterator_columns iterator_cls iterator_args columns = Inl e \<Longrightarrow>
   \<exists>e'. View_create sv new_id load_exc dir_id nm base_path columns predicate is_snap
          nrv comment mv iterator_cls iterator_args w = (Inl e', w)"
  by (auto simp: View_create_def split: sum.splits)

text \<open>
  C7. For a view created with a row-generating iterator, the iterator columns are the
  unstored integer position column followed by one column per output field of the
  iterator, stored iff the iterator does not list the field as unstored; after a
  successful creation the persisted column list is these iterator columns followed
  by the user-declared columns (their value expressions retargeted when the view is
  a snapshot; names, types and flags as declared); and creation fails, leaving the
  state as it was, whenever a user-declared column has the position column's name or
  the name of an iterator output field.
\<close>

theorem view_create_iterator_columns:
  "iterator_cols it args =
     Column_init POS_COLUMN_NAME \<lparr>tag = IntType, nullable = False\<rparr> False #
     map (\<lambda>(n, t). Column_init n t (n \<notin> set (snd (output_schema it args))))
         (fst (output_schema it args)) \<and>
   (\<forall>r w'. View_create sv new_id load_exc dir_id nm base_path columns predicate is_snap
             nrv comment mv (Some it) (Some args) w = (Inr r, w') \<longrightarrow>
      (\<exists>md bvp columns'.
         (if is_snap then get_snapshot_path base_path else Inr base_path) = Inr bvp \<and>
         columns' = (if is_snap then retarget_columns bvp columns else columns) \<and>
         map (\<lambda>c. (name c, col_type c, stored c, is_computed c)) columns' =
           map (\<lambda>c. (name c, col_type c, stored c, is_computed c)) columns \<and>
         md_store w' new_id = Some (md, iterator_cols it args @ columns'))) \<and>
   ((\<exists>c \<in> set columns. name c = POS_COLUMN_NAME \<or>
                         name c \<in> fst ` set (fst (output_schema it args))) \<longrightarrow>
      (\<exists>e. View_create sv new_id load_exc dir_id nm base_path columns predicate is_snap
              nrv comment mv (Some it) (Some args) w = (Inl e, w)))"
proof (intro conjI allI impI)
  show "iterator_cols it args =
     Column_init POS_COLUMN_NAME \<lparr>tag = IntType, nullable = False\<rparr> False #
     map (\<lambda>(n, t). Column_init n t (n \<notin> set (snd (output_schema it args))))
         (fst (output_schema it args))"
    by (simp add: iterator_cols_def split: prod.splits)
next
  fix r w'
  assume s: "View_create sv new_id load_exc dir_id nm base_path columns predicate is_snap
             nrv comment mv (Some it) (Some args) w = (Inr r, w')"
  from View_create_success [OF s] obtain view md cols' bvp where
    a: "add_iterator_columns (Some it) (Some args) columns = Inr cols'" and
    b: "(if is_snap then get_snapshot_path base_path else Inr base_path) = Inr bvp" and
    c: "commit_and_register view md (if is_snap then retarget_columns bvp cols' else cols')
          (\<not> v_snapshot_only view) (tbl_id base_path) w = (Inr r, w')" and
    i: "v_id view = new_id"
    by blast
  from add_iterator_columns_Inr [OF a] have cols': "cols' = iterator_cols it args @ columns" .
  from commit_and_register_ok [OF c] i
  have "md_store w' new_id = Some (md, if is_snap then retarget_columns bvp cols' else cols')"
    by simp
  then have "md_store w' new_id =
      Some (md, iterator_cols it args @ (if is_snap then retarget_columns bvp columns else columns))"
    by (simp add: cols' retarget_columns_iterator_cols)
  with b show "\<exists>md bvp columns'.
         (if is_snap then get_snapshot_path base_path else Inr base_path) = Inr bvp \<and>
         columns' = (if is_snap then retarget_columns bvp columns else columns) \<and>
         map (\<lambda>c. (name c, col_type c, stored c, is_computed c)) columns' =
           map (\<lambda>c. (name c, col_type c, stored c, is_computed c)) columns \<and>
         md_store w' new_id = Some (md, iterator_cols it args @ columns')"
    using retarget_columns_schema by (intro exI [of _ md] exI [of _ bvp]) auto
next
  assume "\<exists>c \<in> set columns. name c = POS_COLUMN_NAME \<or>
                         name c \<in> fst ` set (fst (output_schema it args))"
  then obtain e where "add_iterator_columns (Some it) (Some args) columns = Inl e"
    using add_iterator_columns_collision by blast
  from View_create_Inl_unchanged_pre [OF this]
  show "\<exists>e. View_create sv new_id load_exc dir_id nm base_path columns predicate is_snap
              nrv comment mv (Some it) (Some args) w = (Inl e, w)" .
qed

theorem view_create_iterator_columns_witness:
  "(\<exists>md. md_store
           (snd (View_create no_super_check 7 None 0 ''v'' (TableVersionPath base_tv None)
                   [int_col ''c1'' True] None False 1 '''' ON_READ
                   (Some frame_iterator) (Some video_args) w0)) 7 =
         Some (md, [Column_init ''pos'' \<lparr>tag = IntType, nullable = False\<rparr> False,
                    Column_init ''frame_idx'' \<lparr>tag = IntType, nullable = False\<rparr> True,
                    Column_init ''frame'' \<lparr>tag = JsonType, nullable = False\<rparr> False,
                    int_col ''c1'' True])) \<and>
   (\<exists>e. View_create no_super_check 7 None 0 ''v'' (TableVersionPath base_tv None)
           [int_col ''frame'' True] None False 1 '''' ON_READ
           (Some frame_iterator) (Some video_args) w0 = (Inl e, w0))"
proof -
  have "\<exists>w'. View_create no_super_check 7 None 0 ''v'' (TableVersionPath base_tv None)
               [int_col ''c1'' True] None False 1 '''' ON_READ
               (Some frame_iterator) (Some video_args) w0 = (Inr 1, w')"
    by (simp add: View_create_def verify_column_def no_super_check_def
        int_col_def Column_init_def check_predicate_def add_iterator_columns_def
        iterator_cols_def frame_iterator_def video_args_def POS_COLUMN_NAME_def
        create_in_session_def TableVersion_create_def pure_snapshot_def View_init_def
        commit_and_register_def w0_def tbl_id_def base_tv_def Let_def)
  then obtain w' where
    e: "View_create no_super_check 7 None 0 ''v'' (TableVersionPath base_tv None)
          [int_col ''c1'' True] None False 1 '''' ON_READ
          (Some frame_iterator) (Some video_args) w0 = (Inr 1, w')"
    by blast
  have c: "\<exists>c \<in> set [int_col ''frame'' True]. name c = POS_COLUMN_NAME \<or>
             name c \<in> fst ` set (fst (output_schema frame_iterator video_args))"
    by (simp add: int_col_def Column_init_def frame_iterator_def)
  have i: "iterator_cols frame_iterator video_args =
           [Column_init ''pos'' \<lparr>tag = IntType, nullable = False\<rparr> False,
            Column_init ''frame_idx'' \<lparr>tag = IntType, nullable = False\<rparr> True,
            Column_init ''frame'' \<lparr>tag = JsonType, nullable = False\<rparr> False]"
    by (simp add: iterator_cols_def frame_iterator_def POS_COLUMN_NAME_def)
  from view_create_iterator_columns
         [of frame_iterator video_args no_super_check 7 None 0 "''v''"
             "TableVersionPath base_tv None" "[int_col ''c1'' True]" None False 1 "''''"
             ON_READ w0] e
  have "\<exists>md. md_store w' 7 = Some (md, iterator_cols frame_iterator video_args @
                                        [int_col ''c1'' True])"
    by auto
  moreover
  from view_create_iterator_columns
         [of frame_iterator video_args no_super_check 7 None 0 "''v''"
             "TableVersionPath base_tv None" "[int_col ''frame'' True]" None False 1 "''''"
             ON_READ w0] c
  have "\<exists>e. View_create no_super_check 7 None 0 ''v'' (TableVersionPath base_tv None)
           [int_col ''frame'' True] None False 1 '''' ON_READ
           (Some frame_iterator) (Some video_args) w0 = (Inl e, w0)"
    by blast
  ultimately show ?thesis
    unfolding e snd_conv i by simp
qed

lemma View_drop_assertion:
  assumes "heap w self = Some v" and "tbl_dependents (cat w) (v_id v) = Some deps"
      and "\<not> list_all (dep_is_dropped w) deps"
  shows "View_drop self w = (Inl AssertionError, w)"
  using assms by (simp add: View_drop_def)

lemma unlink_from_base_ok:
  assumes "tbl_dependents (cat w1) (v_base_id v) = Some l" and "self \<in> set l"
      and "tbl_dependents (cat w1) (v_id v) \<noteq> None"
  shows "\<exists>w'. unlink_from_base self v w1 = (Inr (), w') \<and>
          tbl_dependents (cat w') =
            ((tbl_dependents (cat w1))(v_base_id v \<mapsto> remove1 self l))(v_id v := None) \<and>
          tbls (cat w') = tbls (cat w1) \<and> heap w' = heap w1 \<and>
          md_store w' = md_store w1 \<and> store_tbls w' = store_tbls w1"
  using assms
  by (auto simp: unlink_from_base_def Let_def split: option.splits)

lemma drop_snapshot_only_ok:
  assumes "\<not> v_is_dropped v" and "tbls (cat w) (v_id v) \<noteq> None"
  shows "\<exists>w1. drop_snapshot_only self v w = (Inr (), w1) \<and>
          tbl_dependents (cat w1) = tbl_dependents (cat w) \<and>
          tbls (cat w1) = (tbls (cat w))(v_id v := None) \<and>
          heap w1 = (heap w)(self \<mapsto> v\<lparr>v_is_dropped_attr := Some True\<rparr>) \<and>
          md_store w1 = (md_store w)(v_id v := None) \<and> store_tbls w1 = store_tbls w"
  using assms
  by (auto simp: drop_snapshot_only_def check_is_dropped_def Let_def split: option.splits)

lemma Table_drop_ok:
  assumes "heap w self = Some v" and "tbl_dependents (cat w) (v_id v) = Some deps"
      and "list_all (dep_is_dropped w) deps"
      and "\<not> v_is_dropped v" and "tbls (cat w) (v_id v) \<noteq> None"
  shows "\<exists>w1. Table_drop self w = (Inr (), w1) \<and>
          tbl_dependents (cat w1) = tbl_dependents (cat w) \<and>
          tbls (cat w1) = (tbls (cat w))(v_id v := None) \<and>
          heap w1 = (heap w)(self \<mapsto> v\<lparr>v_is_dropped := True\<rparr>) \<and>
          md_store w1 = (md_store w)(v_id v := None) \<and>
          store_tbls w1 = store_tbls w - {v_id v}"
  using assms
  by (auto simp: Table_drop_def check_is_dropped_def Let_def split: option.splits)

text \<open>
  C5. For a view object with an entry in \<open>tbl_dependents\<close>: if some entry of its
  dependents list is not marked dropped, \<open>_drop\<close> stops with an AssertionError and
  the state is unchanged. If every entry is marked dropped, and the view is live and
  registered (not yet dropped, present in \<open>tbls\<close>, listed among its base's
  dependents), \<open>_drop\<close> succeeds: the view is removed once from its base's
  dependents list, its own dependents entry and its \<open>tbls\<close> entry are removed; for a
  snapshot-only view only the metadata is deleted and the physical store tables are
  untouched; any other view goes through the generic Table drop first.
\<close>

theorem view_drop_contract:
  assumes h: "heap w self = Some v"
      and d: "tbl_dependents (cat w) (v_id v) = Some deps"
  shows "(\<not> list_all (dep_is_dropped w) deps \<longrightarrow> View_drop self w = (Inl AssertionError, w)) \<and>
         (list_all (dep_is_dropped w) deps \<and> \<not> v_is_dropped v \<and>
          tbls (cat w) (v_id v) \<noteq> None \<and>
          tbl_dependents (cat w) (v_base_id v) = Some l \<and> self \<in> set l \<longrightarrow>
            (\<exists>w'. View_drop self w = (Inr (), w') \<and>
               tbl_dependents (cat w') =
                 ((tbl_dependents (cat w))(v_base_id v \<mapsto> remove1 self l))(v_id v := None) \<and>
               tbls (cat w') = (tbls (cat w))(v_id v := None) \<and>
               (v_snapshot_only v \<longrightarrow>
                  md_store w' = (md_store w)(v_id v := None) \<and>
                  store_tbls w' = store_tbls w) \<and>
               (\<not> v_snapshot_only v \<longrightarrow>
                  (\<exists>w1. Table_drop self w = (Inr (), w1) \<and>
                        unlink_from_base self v w1 = (Inr (), w')))))"
proof (intro conjI impI)
  assume "\<not> list_all (dep_is_dropped w) deps"
  with h d show "View_drop self w = (Inl AssertionError, w)"
    by (rule View_drop_assertion)
next
  assume a: "list_all (dep_is_dropped w) deps \<and> \<not> v_is_dropped v \<and>
          tbls (cat w) (v_id v) \<noteq> None \<and>
          tbl_dependents (cat w) (v_base_id v) = Some l \<and> self \<in> set l"
  show "\<exists>w'. View_drop self w = (Inr (), w') \<and>
               tbl_dependents (cat w') =
                 ((tbl_dependents (cat w))(v_base_id v \<mapsto> remove1 self l))(v_id v := None) \<and>
               tbls (cat w') = (tbls (cat w))(v_id v := None) \<and>
               (v_snapshot_only v \<longrightarrow>
                  md_store w' = (md_store w)(v_id v := None) \<and>
                  store_tbls w' = store_tbls w) \<and>
               (\<not> v_snapshot_only v \<longrightarrow>
                  (\<exists>w1. Table_drop self w = (Inr (), w1) \<and>
                        unlink_from_base self v w1 = (Inr (), w')))"
  proof (cases "v_snapshot_only v")
    case True
    from a drop_snapshot_only_ok [of v w self] obtain w1 where
      w1: "drop_snapshot_only self v w = (Inr (), w1)"
          "tbl_dependents (cat w1) = tbl_dependents (cat w)"
          "tbls (cat w1) = (tbls (cat w))(v_id v := None)"
          "md_store w1 = (md_store w)(v_id v := None)" "store_tbls w1 = store_tbls w"
      by blast
    from a d w1(2) unlink_from_base_ok [of w1 v l self] obtain w' where
      w': "unlink_from_base self v w1 = (Inr (), w')"
          "tbl_dependents (cat w') =
            ((tbl_dependents (cat w1))(v_base_id v \<mapsto> remove1 self l))(v_id v := None)"
          "tbls (cat w') = tbls (cat w1)"
          "md_store w' = md_store w1" "store_tbls w' = store_tbls w1"
      by auto
    from h d a True w1(1) w'(1) have "View_drop self w = (Inr (), w')"
      by (simp add: View_drop_def)
    with True w1 w' show ?thesis by simp
  next
    case False
    from a h d Table_drop_ok [of w self v deps] obtain w1 where
      w1: "Table_drop self w = (Inr (), w1)"
          "tbl_dependents (cat w1) = tbl_dependents (cat w)"
          "tbls (cat w1) = (tbls (cat w))(v_id v := None)"
      by blast
    from a d w1(2) unlink_from_base_ok [of w1 v l self] obtain w' where
      w': "unlink_from_base self v w1 = (Inr (), w')"
          "tbl_dependents (cat w') =
            ((tbl_dependents (cat w1))(v_base_id v \<mapsto> remove1 self l))(v_id v := None)"
          "tbls (cat w') = tbls (cat w1)"
      by auto
    from h d a False w1(1) w'(1) have "View_drop self w = (Inr (), w')"
      by (simp add: View_drop_def)
    with False w1 w' show ?thesis by simp
  qed
qed

theorem view_drop_contract_witness:
  "View_drop 1 w_dep = (Inl AssertionError, w_dep) \<and>
   fst (View_drop 1 w_snap) = Inr () \<and>
   tbl_dependents (cat (snd (View_drop 1 w_snap))) 1 = Some [] \<and>
   tbl_dependents (cat (snd (View_drop 1 w_snap))) 7 = None \<and>
   tbls (cat (snd (View_drop 1 w_snap))) 7 = None \<and>
   md_store (snd (View_drop 1 w_snap)) 7 = None \<and>
   store_tbls (snd (View_drop 1 w_snap)) = {1}"
proof -
  have "\<not> list_all (dep_is_dropped w_dep) [2]"
    by (simp add: dep_is_dropped_def w_dep_def child_view_def)
  with view_drop_contract [of w_dep 1 snapshot_view "[2]" "[1]"]
  have 1: "View_drop 1 w_dep = (Inl AssertionError, w_dep)"
    by (simp add: w_dep_def snapshot_view_def)
  have "list_all (dep_is_dropped w_snap) [] \<and> \<not> v_is_dropped snapshot_view \<and>
        tbls (cat w_snap) (v_id snapshot_view) \<noteq> None \<and>
        tbl_dependents (cat w_snap) (v_base_id snapshot_view) = Some [1] \<and> 1 \<in> set [1::nat]"
    by (simp add: w_snap_def snapshot_view_def)
  with view_drop_contract [of w_snap 1 snapshot_view "[]" "[1]"]
  obtain w' where w': "View_drop 1 w_snap = (Inr (), w')"
    "tbl_dependents (cat w') =
       ((tbl_dependents (cat w_snap))(v_base_id snapshot_view \<mapsto> remove1 1 [1]))
         (v_id snapshot_view := None)"
    "tbls (cat w') = (tbls (cat w_snap))(v_id snapshot_view := None)"
    "md_store w' = (md_store w_snap)(v_id snapshot_view := None)"
    "store_tbls w' = store_tbls w_snap"
    by (auto simp: w_snap_def snapshot_view_def)
  from 1 w' show ?thesis
    by (simp add: w_snap_def snapshot_view_def)
qed

lemma alloc_frame_old:
  "alloc_frame df obc st = (r, st') \<Longrightarrow> a < next_addr st \<Longrightarrow>
   frames st' a = frames st a \<and> order_lists st' a = order_lists st a"
  by (auto simp: alloc_frame_def split: option.splits)

lemma DataFrame_init_old:
  assumes "DataFrame_init env t sl wc gbc gt obc lim st = (res, st')" and "a < next_addr st"
  shows "frames st' a = frames st a \<and> order_lists st' a = order_lists st a"
proof (cases res)
  case (Inl e)
  with assms(1) have "st' = st"
    by (auto simp: DataFrame_init_def Let_def split: sum.splits prod.splits if_splits)
  then show ?thesis by simp
next
  case (Inr r)
  with assms(1) obtain df where "alloc_frame df obc st = (r, st')"
    by (auto simp: DataFrame_init_def Let_def split: sum.splits prod.splits if_splits)
  from alloc_frame_old [OF this assms(2)] show ?thesis .
qed

text \<open>
  The sibling methods leave every object and every order-by list that exists before
  the call as it is.
\<close>

lemma df_where_old:
  "df_where env self pred st = (res, st') \<Longrightarrow> a < next_addr st \<Longrightarrow>
   frames st' a = frames st a \<and> order_lists st' a = order_lists st a"
  by (auto simp: df_where_def split: option.splits item.splits if_splits
           dest: DataFrame_init_old)

lemma df_limit_old:
  "df_limit env self n st = (res, st') \<Longrightarrow> a < next_addr st \<Longrightarrow>
   frames st' a = frames st a \<and> order_lists st' a = order_lists st a"
  by (auto simp: df_limit_def split: option.splits dest: DataFrame_init_old)

lemma df_group_by_old:
  "df_group_by env self gis st = (res, st') \<Longrightarrow> a < next_addr st \<Longrightarrow>
   frames st' a = frames st a \<and> order_lists st' a = order_lists st a"
  by (auto simp: df_group_by_def split: option.splits sum.splits if_splits
           dest: DataFrame_init_old)

lemma df_select_old:
  "df_select env self items named st = (res, st') \<Longrightarrow> a < next_addr st \<Longrightarrow>
   frames st' a = frames st a \<and> order_lists st' a = order_lists st a"
  by (auto simp: df_select_def Let_def split: option.splits sum.splits if_splits
           dest: DataFrame_init_old)

text \<open>
  C1. The claim is that no builder call changes the receiver, in particular that
  \<open>order_by\<close> on a DataFrame that already has an order-by list leaves that list as
  it was. The code does otherwise: for \<open>t.select(t.c1).order_by(t.c1)\<close> at address 2,
  the call \<open>order_by(t.c2)\<close> returns a new DataFrame at address 4, and the receiver's
  own order-by list, \<open>[(c1, True)]\<close> before the call, is \<open>[(c1, True), (c2, True)]\<close>
  after it.
\<close>

theorem order_by_extends_receiver_list:
  "frames st0 2 = Some df_ordered \<and>
   order_by_list st0 df_ordered = Some [(c1, True)] \<and>
   fst (df_order_by ex_env 2 [IExpr c2] True st0) = Inr 4 \<and>
   frames (snd (df_order_by ex_env 2 [IExpr c2] True st0)) 2 = Some df_ordered \<and>
   order_by_list (snd (df_order_by ex_env 2 [IExpr c2] True st0)) df_ordered =
     Some [(c1, True), (c2, True)]"
  by (simp add: df_order_by_def st0_def df_ordered_def order_by_list_def
      DataFrame_init_def select_list_check_rep_def normalize_select_list_def
      alloc_frame_def c1_def c2_def ex_env_def Let_def)

text \<open>
  The claim C10 as stated fails on a DataFrame whose select list is set: \<open>select()\<close>
  without arguments raises there, because the check of the select list comes first.
\<close>

theorem select_empty_counterexample:
  "frames st0 2 = Some df_ordered \<and>
   df_select ex_env 2 [] [] st0 = (Inl (Error ''Select list already specified''), st0)"
  by (simp add: df_select_def st0_def df_ordered_def)

text \<open>
  C10, amended. On a DataFrame whose select list is not set, \<open>select()\<close> without
  arguments returns the receiver itself (the same address) and leaves the store as
  it is, so the select list stays unset. On a DataFrame whose select list is set,
  every \<open>select\<close> call, with or without arguments, raises \<open>Select list already specified\<close>.
\<close>

theorem select_empty_identity:
  assumes "frames st self = Some df"
  shows "(select_list df = None \<longrightarrow> df_select env self [] [] st = (Inr self, st)) \<and>
         (select_list df \<noteq> None \<longrightarrow>
            df_select env self items named_items st =
              (Inl (Error ''Select list already specified''), st))"
  using assms by (auto simp: df_select_def)

theorem select_empty_identity_witness:
  "frames st0 0 = Some df_plain \<and> select_list df_plain = None \<and>
   df_select ex_env 0 [] [] st0 = (Inr 0, st0) \<and>
   frames st0 2 = Some df_ordered \<and> select_list df_ordered \<noteq> None \<and>
   df_select ex_env 2 [IExpr c2] [] st0 = (Inl (Error ''Select list already specified''), st0)"
proof -
  have a: "frames st0 0 = Some df_plain" and b: "frames st0 2 = Some df_ordered"
    by (simp_all add: st0_def)
  have n: "select_list df_plain = None" and s: "select_list df_ordered \<noteq> None"
    by (simp_all add: df_plain_def df_ordered_def)
  from select_empty_identity [OF a, of ex_env] n
       select_empty_identity [OF b, of ex_env "[IExpr c2]" "[]"] s a b
  show ?thesis by simp
qed

text \<open>
  C8. The claim is that \<open>bind(args)\<close> returns a DataFrame in which each variable
  named in \<open>args\<close> is replaced by a literal built from the supplied value. The code
  does otherwise for a where clause that is itself a variable: for
  \<open>t.select(t.c1).where(x)\<close>, whose only parameter is the boolean \<open>x\<close>,
  \<open>bind({'x': True})\<close> returns a DataFrame whose where clause is still the variable
  \<open>x\<close>. A variable below the root of the where clause is replaced, as in
  \<open>t.select(t.c1).where(f(x))\<close>.
\<close>

theorem bind_keeps_where_variable:
  "frames st_param 0 = Some df_param \<and>
   where_clause df_param = Some (Variable ''x'' bool_type) \<and>
   df_parameters 0 st_param = Inr [(''x'', bool_type)] \<and>
   fst (df_bind ex_env 0 [(''x'', IVal (VBool True))] st_param) = Inr 2 \<and>
   map_option where_clause
     (frames (snd (df_bind ex_env 0 [(''x'', IVal (VBool True))] st_param)) 2) =
     Some (Some (Variable ''x'' bool_type)) \<and>
   fst (df_bind ex_env 1 [(''x'', IVal (VBool True))] st_param) = Inr 2 \<and>
   map_option where_clause
     (frames (snd (df_bind ex_env 1 [(''x'', IVal (VBool True))] st_param)) 2) =
     Some (Some (FunctionCall ''f'' bool_type [Literal (VBool True)]))"
  by (simp add: df_bind_def df_parameters_def df_vars_def all_exprs_def list_subexprs_def
      order_by_list_def st_param_def df_param_def df_param_nested_def from_object_def
      DataFrame_init_def select_list_check_rep_def normalize_select_list_def
      alloc_frame_def c1_def ex_env_def Let_def)









lemma alloc_frame_result:
  assumes "order_by_clause df0 = None"
  shows "\<exists>df'. frames (snd (alloc_frame df0 obc st)) (fst (alloc_frame df0 obc st)) = Some df' \<and>
          df'\<lparr>order_by_clause := None\<rparr> = df0 \<and>
          order_by_list (snd (alloc_frame df0 obc st)) df' = obc"
  using assms
  by (cases obc) (auto simp: alloc_frame_def order_by_list_def)

lemma DataFrame_init_makes_constructed:
  assumes "DataFrame_init env t sl wc gbc gt obc lim st = (Inr r, st')"
  shows "\<exists>df. frames st' r = Some df \<and> constructed env df"
proof -
  obtain es names where n: "normalize_select_list env t sl = (es, names)"
    by (cases "normalize_select_list env t sl")
  let ?df0 = "\<lparr>tbl = t, select_list_exprs = es, schema = make_schema names es,
              select_list = sl, where_clause = wc, group_by_clause = gbc,
              grouping_tbl = gt, order_by_clause = None, limit_val = lim\<rparr>"
  from assms n have
    c: "select_list_check_rep env sl = Inr ()"
       "select_list_check_rep env (Some (zip es (map Some names))) = Inr ()"
       "length names = length es" "gbc = None \<or> gt = None" and
    a: "alloc_frame ?df0 obc st = (r, st')"
    by (auto simp: DataFrame_init_def Let_def split: sum.splits if_splits prod.splits)
  from alloc_frame_result [of ?df0 obc st] a obtain df' where
    f: "frames st' r = Some df'" and e: "df'\<lparr>order_by_clause := None\<rparr> = ?df0"
    by auto
  from e have fields: "tbl df' = t" "select_list df' = sl" "select_list_exprs df' = es"
    "schema df' = make_schema names es" "group_by_clause df' = gbc" "grouping_tbl df' = gt"
    by (cases df'; simp)+
  with c n have "constructed env df'"
    by (simp add: constructed_def)
  with f show ?thesis by blast
qed



lemma unique_vars_loop_names:
  "unique_vars_loop vs acc = Inr u \<Longrightarrow> distinct (map fst acc) \<Longrightarrow>
   distinct (map fst u) \<and> set (map fst u) = set (map fst acc) \<union> set (map fst vs) \<and>
   set u \<subseteq> set acc \<union> set vs"
proof (induction vs acc rule: unique_vars_loop.induct)
  case (1 unique_vars)
  then show ?case by simp
next
  case (2 n t vars unique_vars)
  show ?case
  proof (cases "map_of unique_vars n")
    case None
    then have "n \<notin> fst ` set unique_vars"
      by (simp add: map_of_eq_None_iff)
    with 2 None show ?thesis by auto
  next
    case (Some t')
    then have "(n, t') \<in> set unique_vars" by (rule map_of_SomeD)
    then have "n \<in> fst ` set unique_vars" by force
    with 2 Some show ?thesis by (auto split: if_splits)
  qed
qed

lemma unique_vars_loop_error:
  "distinct (map fst acc) \<Longrightarrow>
   (\<exists>e. unique_vars_loop vs acc = Inl e) =
   (\<exists>n t t'. (n, t) \<in> set (acc @ vs) \<and> (n, t') \<in> set (acc @ vs) \<and> t \<noteq> t')"
proof (induction vs acc rule: unique_vars_loop.induct)
  case (1 unique_vars)
  then show ?case
    by (auto dest: eq_key_imp_eq_value)
next
  case (2 n t vars unique_vars)
  show ?case
  proof (cases "map_of unique_vars n")
    case None
    then have "n \<notin> fst ` set unique_vars"
      by (simp add: map_of_eq_None_iff)
    then have "distinct (map fst (unique_vars @ [(n, t)]))"
      using 2(3) by simp
    from 2(1) [OF None this] None show ?thesis by simp
  next
    case (Some t')
    then have m: "(n, t') \<in> set unique_vars" by (rule map_of_SomeD)
    show ?thesis
    proof (cases "t' = t")
      case True
      with m have "set (unique_vars @ (n, t) # vars) = set (unique_vars @ vars)"
        by auto
      with 2(2) [OF Some _ 2(3)] Some True show ?thesis by simp
    next
      case False
      with m have "\<exists>m a b. (m, a) \<in> set (unique_vars @ (n, t) # vars) \<and>
                     (m, b) \<in> set (unique_vars @ (n, t) # vars) \<and> a \<noteq> b"
        by (intro exI [of _ n] exI [of _ t'] exI [of _ t]) simp
      with Some False show ?thesis by simp
    qed
  qed
qed

text \<open>
  \<open>parameters()\<close>: the names reported are distinct and are exactly the names of the
  variables that occur in the query, and the call raises iff a name occurs with two
  different declared types.
\<close>

lemma df_vars_names:
  "df_vars st df = Inr vars \<Longrightarrow>
   distinct (map fst vars) \<and>
   set (map fst vars) = fst ` set (list_subexprs (all_exprs st df)) \<and>
   set vars \<subseteq> set (list_subexprs (all_exprs st df))"
  using unique_vars_loop_names [of "list_subexprs (all_exprs st df)" "[]" vars]
  by (simp add: df_vars_def)

lemma df_vars_error:
  "(\<exists>e. df_vars st df = Inl e) =
   (\<exists>n t t'. (n, t) \<in> set (list_subexprs (all_exprs st df)) \<and>
             (n, t') \<in> set (list_subexprs (all_exprs st df)) \<and> t \<noteq> t')"
  using unique_vars_loop_error [of "[]" "list_subexprs (all_exprs st df)"]
  by (simp add: df_vars_def)

text \<open>
  \<open>bind\<close>: a key that names no variable is skipped; a value that cannot be converted,
  supplied for a variable, raises.
\<close>

lemma bind_args_unknown_key:
  "map_of vars k = None \<Longrightarrow> bind_args vars ((k, v) # rest) s = bind_args vars rest s"
  by simp

lemma bind_args_unconvertible:
  "map_of vars k = Some t \<Longrightarrow> from_object v = None \<Longrightarrow>
   \<exists>e. bind_args vars ((k, v) # rest) s = Inl e"
  by simp


end
